theory Spec2Isabelle
  imports Main "HOL-Library.Multiset" "HOL-Library.Sublist"
begin

section \<open>Python values\<close>

text \<open>
  A Python \<open>str\<close> is a sequence of Unicode code points, so a string is a list of
  natural numbers (one per code point); \<open>lit\<close> turns a literal of the source into such
  a string and \<open>ord\<close> is Python's \<open>ord\<close> on one character.
\<close>

type_synonym pystr = "nat list"

abbreviation ord :: "char \<Rightarrow> nat" where
  "ord \<equiv> of_char"

definition lit :: "string \<Rightarrow> pystr" where
  "lit s = map ord s"

text \<open>
  The values the programs handle are the ones JSON carries: \<open>None\<close>, booleans, integers,
  floats, strings, lists and dictionaries with string keys. A dictionary is an association
  list in insertion order (the order Python keeps). No operation below computes with a
  float, so a float is kept as the numeral text that denotes it.
\<close>

datatype pyval =
    PNone
  | PBool bool
  | PInt int
  | PFloat pystr
  | PStr pystr
  | PList "pyval list"
  | PDict "(pystr \<times> pyval) list"

type_synonym pydict = "(pystr \<times> pyval) list"

abbreviation pstr :: "string \<Rightarrow> pyval" where
  "pstr s \<equiv> PStr (lit s)"

text \<open>The exceptions the modelled code can raise.\<close>

datatype py_error = AttributeError | IndexError | KeyError | TypeError | JSONDecodeError

text \<open>Sequencing of statements that may raise: the first exception ends the block.\<close>

definition py_bind :: "py_error + 'a \<Rightarrow> ('a \<Rightarrow> py_error + 'b) \<Rightarrow> py_error + 'b" where
  "py_bind m f = (case m of Inl e \<Rightarrow> Inl e | Inr v \<Rightarrow> f v)"

text \<open>\<open>d.get(k, dflt)\<close> on a dictionary, and \<open>d[k] = v\<close>.\<close>

definition dict_get :: "pydict \<Rightarrow> pystr \<Rightarrow> pyval \<Rightarrow> pyval" where
  "dict_get d k dflt = (case map_of d k of Some v \<Rightarrow> v | None \<Rightarrow> dflt)"

fun dict_set :: "pydict \<Rightarrow> pystr \<Rightarrow> pyval \<Rightarrow> pydict" where
  "dict_set [] k v = [(k, v)]"
| "dict_set ((k', v') # d) k v = (if k' = k then (k, v) # d else (k', v') # dict_set d k v)"

text \<open>
  \<open>x.get(k, dflt)\<close> on a value that came out of a payload: only a dictionary has the
  method, any other value raises \<open>AttributeError\<close>.
\<close>

definition py_get :: "pyval \<Rightarrow> pystr \<Rightarrow> pyval \<Rightarrow> py_error + pyval" where
  "py_get x k dflt = (case x of PDict d \<Rightarrow> Inr (dict_get d k dflt) | _ \<Rightarrow> Inl AttributeError)"

text \<open>
  \<open>x[0]\<close>: the first element of a list or the first character of a string
  (\<open>IndexError\<close> when empty); a dictionary has no key \<open>0\<close> since its keys are strings
  (\<open>KeyError\<close>); the other values are not subscriptable (\<open>TypeError\<close>).
\<close>

fun py_index0 :: "pyval \<Rightarrow> py_error + pyval" where
  "py_index0 (PList []) = Inl IndexError"
| "py_index0 (PList (x # xs)) = Inr x"
| "py_index0 (PStr []) = Inl IndexError"
| "py_index0 (PStr (c # cs)) = Inr (PStr [c])"
| "py_index0 (PDict d) = Inl KeyError"
| "py_index0 _ = Inl TypeError"

text \<open>
  \<open>for x in v\<close>: a list yields its elements, a string its characters, a dictionary its
  keys; the other values are not iterable.
\<close>

fun py_iter :: "pyval \<Rightarrow> py_error + pyval list" where
  "py_iter (PList xs) = Inr xs"
| "py_iter (PStr s) = Inr (map (\<lambda>c. PStr [c]) s)"
| "py_iter (PDict d) = Inr (map (\<lambda>kv. PStr (fst kv)) d)"
| "py_iter _ = Inl TypeError"

text \<open>A loop \<open>for x in xs: out.append(f(x))\<close> whose body may raise.\<close>

fun map_res :: "('a \<Rightarrow> py_error + 'b) \<Rightarrow> 'a list \<Rightarrow> py_error + 'b list" where
  "map_res f [] = Inr []"
| "map_res f (x # xs) =
     py_bind (f x) (\<lambda>y. py_bind (map_res f xs) (\<lambda>ys. Inr (y # ys)))"

section \<open>Incident aggregation (\<open>IncidentResponseAgent.aggregate_incidents\<close>)\<close>

text \<open>
  Each loop body of \<open>aggregate_incidents\<close> builds one incident dictionary from one vendor
  record. The dictionary literal evaluates its entries in order, so the first failing
  lookup decides the exception.
\<close>

definition detection_incident :: "pyval \<Rightarrow> py_error + pydict" where
  "detection_incident detection =
     py_bind (py_get detection (lit ''detection_id'') PNone) (\<lambda>vid.
     py_bind (py_get detection (lit ''behaviors'') (PList [PDict []])) (\<lambda>bs1.
     py_bind (py_index0 bs1) (\<lambda>b1.
     py_bind (py_get b1 (lit ''scenario'') (pstr ''Unknown'')) (\<lambda>title.
     py_bind (py_get detection (lit ''behaviors'') (PList [PDict []])) (\<lambda>bs2.
     py_bind (py_index0 bs2) (\<lambda>b2.
     py_bind (py_get b2 (lit ''description'') (pstr '''')) (\<lambda>description.
     py_bind (py_get detection (lit ''max_severity_displayname'') (pstr ''Unknown'')) (\<lambda>severity.
     py_bind (py_get detection (lit ''first_behavior'') PNone) (\<lambda>timestamp.
     Inr [(lit ''id'', vid),
          (lit ''title'', title),
          (lit ''description'', description),
          (lit ''severity'', severity),
          (lit ''source'', pstr ''CrowdStrike''),
          (lit ''timestamp'', timestamp),
          (lit ''raw_data'', detection)])))))))))"

definition cs_incident :: "pyval \<Rightarrow> py_error + pydict" where
  "cs_incident incident =
     py_bind (py_get incident (lit ''incident_id'') PNone) (\<lambda>vid.
     py_bind (py_get incident (lit ''name'') (pstr ''Unnamed Incident'')) (\<lambda>title.
     py_bind (py_get incident (lit ''description'') (pstr '''')) (\<lambda>description.
     py_bind (py_get incident (lit ''state'') (pstr ''Unknown'')) (\<lambda>severity.
     py_bind (py_get incident (lit ''start'') PNone) (\<lambda>timestamp.
     Inr [(lit ''id'', vid),
          (lit ''title'', title),
          (lit ''description'', description),
          (lit ''severity'', severity),
          (lit ''source'', pstr ''CrowdStrike''),
          (lit ''timestamp'', timestamp),
          (lit ''raw_data'', incident)])))))"

definition alert_incident :: "pyval \<Rightarrow> py_error + pydict" where
  "alert_incident alert =
     py_bind (py_get alert (lit ''id'') PNone) (\<lambda>vid.
     py_bind (py_get alert (lit ''title'') (pstr ''Unknown Alert'')) (\<lambda>title.
     py_bind (py_get alert (lit ''description'') (pstr '''')) (\<lambda>description.
     py_bind (py_get alert (lit ''severity'') (pstr ''Unknown'')) (\<lambda>severity.
     py_bind (py_get alert (lit ''created_datetime'') PNone) (\<lambda>timestamp.
     Inr [(lit ''id'', vid),
          (lit ''title'', title),
          (lit ''description'', description),
          (lit ''severity'', severity),
          (lit ''source'', pstr ''Microsoft Defender''),
          (lit ''timestamp'', timestamp),
          (lit ''raw_data'', alert)])))))"

text \<open>
  The test \<open>msg.get('threatType') in ['url', 'attachment']\<close> compares with two strings,
  so only a string value can pass it.
\<close>

definition high_value_threat :: "pyval \<Rightarrow> bool" where
  "high_value_threat t = (t = pstr ''url'' \<or> t = pstr ''attachment'')"

text \<open>
  The body of the guarded branch; \<open>tt\<close> is the threat type as the f-string reads it again.
  The branch is entered only when the threat type is one of the two strings, and an
  f-string inserts a string as it is. (For a value that is not a string, which never
  reaches this point, the title is left without a suffix.)
\<close>

definition email_incident :: "pyval \<Rightarrow> py_error + pydict" where
  "email_incident msg =
     py_bind (py_get msg (lit ''GUID'') PNone) (\<lambda>vid.
     py_bind (py_get msg (lit ''threatType'') PNone) (\<lambda>tt.
     py_bind (py_get msg (lit ''subject'') (pstr '''')) (\<lambda>description.
     py_bind (py_get msg (lit ''messageTime'') PNone) (\<lambda>timestamp.
     Inr [(lit ''id'', vid),
          (lit ''title'',
             PStr (lit ''Malicious Email Blocked: '' @ (case tt of PStr s \<Rightarrow> s | _ \<Rightarrow> []))),
          (lit ''description'', description),
          (lit ''severity'', pstr ''High''),
          (lit ''source'', pstr ''Proofpoint''),
          (lit ''timestamp'', timestamp),
          (lit ''raw_data'', msg)]))))"

fun email_loop :: "pyval list \<Rightarrow> py_error + pydict list" where
  "email_loop [] = Inr []"
| "email_loop (msg # msgs) =
     py_bind (py_get msg (lit ''threatType'') PNone) (\<lambda>t.
       if high_value_threat t
       then py_bind (email_incident msg) (\<lambda>inc.
            py_bind (email_loop msgs) (\<lambda>incs. Inr (inc # incs)))
       else email_loop msgs)"

text \<open>\<open>for x in payload.get(key, [])\<close>: the records a loop of \<open>aggregate_incidents\<close> visits.\<close>

definition payload_records :: "pydict \<Rightarrow> string \<Rightarrow> py_error + pyval list" where
  "payload_records payload key = py_iter (dict_get payload (lit key) (PList []))"

definition aggregate_incidents ::
  "pydict \<Rightarrow> pydict \<Rightarrow> pydict \<Rightarrow> pydict \<Rightarrow> py_error + pydict list" where
  "aggregate_incidents cs_detections cs_incidents ms_alerts pp_events =
     py_bind (payload_records cs_detections ''detections'') (\<lambda>detections.
     py_bind (map_res detection_incident detections) (\<lambda>incs1.
     py_bind (payload_records cs_incidents ''incidents'') (\<lambda>incidents.
     py_bind (map_res cs_incident incidents) (\<lambda>incs2.
     py_bind (payload_records ms_alerts ''alerts'') (\<lambda>alerts.
     py_bind (map_res alert_incident alerts) (\<lambda>incs3.
     py_bind (payload_records pp_events ''messages_blocked'') (\<lambda>msgs.
     py_bind (email_loop msgs) (\<lambda>incs4.
     Inr (incs1 @ incs2 @ incs3 @ incs4)))))))))"

text \<open>The fields of an incident that the statements below read.\<close>

definition title_of :: "pydict \<Rightarrow> pyval" where
  "title_of inc = dict_get inc (lit ''title'') PNone"

definition description_of :: "pydict \<Rightarrow> pyval" where
  "description_of inc = dict_get inc (lit ''description'') PNone"

definition severity_of :: "pydict \<Rightarrow> pyval" where
  "severity_of inc = dict_get inc (lit ''severity'') PNone"

definition source_of :: "pydict \<Rightarrow> pyval" where
  "source_of inc = dict_get inc (lit ''source'') PNone"

definition raw_data_of :: "pydict \<Rightarrow> pyval" where
  "raw_data_of inc = dict_get inc (lit ''raw_data'') PNone"

text \<open>
  The guard of the email loop as a predicate on a record: the record is a dictionary
  whose \<open>threatType\<close> is \<open>'url'\<close> or \<open>'attachment'\<close>.
\<close>

definition email_guard :: "pyval \<Rightarrow> bool" where
  "email_guard msg =
     (case py_get msg (lit ''threatType'') PNone of
        Inr t \<Rightarrow> high_value_threat t
      | Inl e \<Rightarrow> False)"

text \<open>A record that is a dictionary, and one that is a dictionary without a given key.\<close>

definition is_dict :: "pyval \<Rightarrow> bool" where
  "is_dict x = (case x of PDict d \<Rightarrow> True | _ \<Rightarrow> False)"

definition lacks :: "pyval \<Rightarrow> string \<Rightarrow> bool" where
  "lacks x key = (case x of PDict d \<Rightarrow> map_of d (lit key) = None | _ \<Rightarrow> False)"

text \<open>
  The payloads of the specification's end-to-end scenario: one endpoint detection of
  severity \<open>High\<close>, no endpoint incidents, one identity alert of severity \<open>medium\<close>, and
  two blocked messages of which one is an attachment threat.
\<close>

definition scenario_detection :: pyval where
  "scenario_detection =
     PDict [(lit ''detection_id'', pstr ''ldt:1''),
            (lit ''max_severity_displayname'', pstr ''High'')]"

definition scenario_alert :: pyval where
  "scenario_alert = PDict [(lit ''id'', pstr ''a-7''), (lit ''severity'', pstr ''medium'')]"

definition scenario_attachment :: pyval where
  "scenario_attachment =
     PDict [(lit ''GUID'', pstr ''g-1''), (lit ''threatType'', pstr ''attachment''),
            (lit ''severity'', pstr ''low'')]"

definition scenario_spam :: pyval where
  "scenario_spam = PDict [(lit ''GUID'', pstr ''g-2''), (lit ''threatType'', pstr ''spam'')]"

definition scenario_cs_detections :: pydict where
  "scenario_cs_detections = [(lit ''detections'', PList [scenario_detection]), (lit ''count'', PInt 1)]"

definition scenario_cs_incidents :: pydict where
  "scenario_cs_incidents = [(lit ''error'', pstr ''unavailable''), (lit ''count'', PInt 0)]"

definition scenario_ms_alerts :: pydict where
  "scenario_ms_alerts = [(lit ''alerts'', PList [scenario_alert]), (lit ''count'', PInt 1)]"

definition scenario_pp_events :: pydict where
  "scenario_pp_events =
     [(lit ''messages_blocked'', PList [scenario_spam, scenario_attachment]),
      (lit ''messages_delivered'', PList [])]"

definition scenario_incidents :: "pydict list" where
  "scenario_incidents =
     [[(lit ''id'', pstr ''ldt:1''),
       (lit ''title'', pstr ''Unknown''),
       (lit ''description'', pstr ''''),
       (lit ''severity'', pstr ''High''),
       (lit ''source'', pstr ''CrowdStrike''),
       (lit ''timestamp'', PNone),
       (lit ''raw_data'', scenario_detection)],
      [(lit ''id'', pstr ''a-7''),
       (lit ''title'', pstr ''Unknown Alert''),
       (lit ''description'', pstr ''''),
       (lit ''severity'', pstr ''medium''),
       (lit ''source'', pstr ''Microsoft Defender''),
       (lit ''timestamp'', PNone),
       (lit ''raw_data'', scenario_alert)],
      [(lit ''id'', pstr ''g-1''),
       (lit ''title'', pstr ''Malicious Email Blocked: attachment''),
       (lit ''description'', pstr ''''),
       (lit ''severity'', pstr ''High''),
       (lit ''source'', pstr ''Proofpoint''),
       (lit ''timestamp'', PNone),
       (lit ''raw_data'', scenario_attachment)]]"

section \<open>Python string operations\<close>

text \<open>
  \<open>s.find(pat)\<close> and \<open>s.rfind(pat)\<close>: the index of the first (last) place where
  \<open>pat\<close> starts, or \<open>-1\<close>.
\<close>

fun find_sub :: "'a list \<Rightarrow> 'a list \<Rightarrow> nat option" where
  "find_sub pat [] = (if pat = [] then Some 0 else None)"
| "find_sub pat (c # cs) =
     (if prefix pat (c # cs) then Some 0 else map_option Suc (find_sub pat cs))"

fun rfind_sub :: "'a list \<Rightarrow> 'a list \<Rightarrow> nat option" where
  "rfind_sub pat [] = (if pat = [] then Some 0 else None)"
| "rfind_sub pat (c # cs) =
     (case rfind_sub pat cs of
        Some i \<Rightarrow> Some (Suc i)
      | None \<Rightarrow> if prefix pat (c # cs) then Some 0 else None)"

definition py_find :: "'a list \<Rightarrow> 'a list \<Rightarrow> int" where
  "py_find s pat = (case find_sub pat s of None \<Rightarrow> - 1 | Some i \<Rightarrow> int i)"

definition py_rfind :: "'a list \<Rightarrow> 'a list \<Rightarrow> int" where
  "py_rfind s pat = (case rfind_sub pat s of None \<Rightarrow> - 1 | Some i \<Rightarrow> int i)"

text \<open>\<open>pat in s\<close> for strings.\<close>

definition py_contains :: "'a list \<Rightarrow> 'a list \<Rightarrow> bool" where
  "py_contains s pat = (find_sub pat s \<noteq> None)"

text \<open>
  \<open>s[i:j]\<close> and \<open>s[i:]\<close>: a negative index counts from the end, and both indices are
  clamped to the string.
\<close>

definition py_clamp :: "'a list \<Rightarrow> int \<Rightarrow> nat" where
  "py_clamp s i =
     (let n = int (length s) in
      if i < 0 then nat (max (i + n) 0) else nat (min i n))"

definition py_slice :: "'a list \<Rightarrow> int \<Rightarrow> int \<Rightarrow> 'a list" where
  "py_slice s i j = take (py_clamp s j - py_clamp s i) (drop (py_clamp s i) s)"

definition py_slice_from :: "'a list \<Rightarrow> int \<Rightarrow> 'a list" where
  "py_slice_from s i = drop (py_clamp s i) s"

text \<open>
  \<open>str.isspace\<close> on one character: the code points Python counts as whitespace, which
  \<open>strip()\<close> removes from both ends.
\<close>

definition py_isspace :: "nat \<Rightarrow> bool" where
  "py_isspace c =
     ((9 \<le> c \<and> c \<le> 13) \<or> (28 \<le> c \<and> c \<le> 32) \<or> c = 133 \<or> c = 160 \<or> c = 5760 \<or>
      (8192 \<le> c \<and> c \<le> 8202) \<or> c = 8232 \<or> c = 8233 \<or> c = 8239 \<or> c = 8287 \<or>
      c = 12288)"

definition py_lstrip :: "pystr \<Rightarrow> pystr" where
  "py_lstrip s = dropWhile py_isspace s"

definition py_rstrip :: "pystr \<Rightarrow> pystr" where
  "py_rstrip s = rev (dropWhile py_isspace (rev s))"

definition py_strip :: "pystr \<Rightarrow> pystr" where
  "py_strip s = py_rstrip (py_lstrip s)"

text \<open>\<open>s.lstrip(chars)\<close>, \<open>s.startswith(p)\<close> and \<open>s.split(sep)\<close> for a one-character separator.\<close>

definition py_lstrip_chars :: "pystr \<Rightarrow> pystr \<Rightarrow> pystr" where
  "py_lstrip_chars s chars = dropWhile (\<lambda>c. c \<in> set chars) s"

definition py_startswith :: "pystr \<Rightarrow> pystr \<Rightarrow> bool" where
  "py_startswith s p = prefix p s"

fun py_split :: "pystr \<Rightarrow> nat \<Rightarrow> pystr list" where
  "py_split [] sep = [[]]"
| "py_split (c # cs) sep =
     (if c = sep then [] # py_split cs sep
      else (case py_split cs sep of
              l # ls \<Rightarrow> (c # l) # ls
            | [] \<Rightarrow> [[c]]))"

section \<open>The JSON decoder (\<open>json.loads\<close>)\<close>

text \<open>
  \<open>json.loads\<close> belongs to Python's standard library. It is modelled as the decoder
  reads a document: a scanner cuts the text into tokens, skipping the four whitespace
  characters between them, and a stack machine assembles the value, one token at a time.
  A document is accepted when it is exactly one value. The interpreter's resource limits
  (nesting depth, digits of an integer) are not modelled.
\<close>

datatype token =
    TLBrace | TRBrace | TLBrack | TRBrack | TComma | TColon
  | TScalar pyval
  | TString pystr

definition is_digit :: "nat \<Rightarrow> bool" where
  "is_digit c = (ord CHR ''0'' \<le> c \<and> c \<le> ord CHR ''9'')"

definition hex_digit :: "nat \<Rightarrow> nat option" where
  "hex_digit c =
     (if ord CHR ''0'' \<le> c \<and> c \<le> ord CHR ''9'' then Some (c - ord CHR ''0'')
      else if ord CHR ''a'' \<le> c \<and> c \<le> ord CHR ''f'' then Some (c - ord CHR ''a'' + 10)
      else if ord CHR ''A'' \<le> c \<and> c \<le> ord CHR ''F'' then Some (c - ord CHR ''A'' + 10)
      else None)"

definition hex4 :: "nat \<Rightarrow> nat \<Rightarrow> nat \<Rightarrow> nat \<Rightarrow> nat option" where
  "hex4 a b c d =
     (case (hex_digit a, hex_digit b, hex_digit c, hex_digit d) of
        (Some w, Some x, Some y, Some z) \<Rightarrow> Some (((w * 16 + x) * 16 + y) * 16 + z)
      | _ \<Rightarrow> None)"

definition simple_escape :: "nat \<Rightarrow> nat option" where
  "simple_escape e =
     (if e = ord CHR ''\"'' then Some (ord CHR ''\"'')
      else if e = ord CHR 0x5C then Some (ord CHR 0x5C)
      else if e = ord CHR ''/'' then Some (ord CHR ''/'')
      else if e = ord CHR ''b'' then Some 8
      else if e = ord CHR ''f'' then Some 12
      else if e = ord CHR ''n'' then Some 10
      else if e = ord CHR ''r'' then Some 13
      else if e = ord CHR ''t'' then Some 9
      else None)"

text \<open>
  A high surrogate followed by a second \<open>\\uXXXX\<close> escape that is a low surrogate: the
  pair (twelve characters of the text) is one code point.
\<close>

definition low_surrogate :: "nat \<Rightarrow> pystr \<Rightarrow> nat option" where
  "low_surrogate hi s =
     (case s of
        b # u # a1 # a2 # a3 # a4 # rest \<Rightarrow>
          if 55296 \<le> hi \<and> hi \<le> 56319 \<and> b = ord CHR 0x5C \<and> u = ord CHR ''u'' then
            (case hex4 a1 a2 a3 a4 of
               Some lo \<Rightarrow>
                 if 56320 \<le> lo \<and> lo \<le> 57343
                 then Some (65536 + (hi - 55296) * 1024 + (lo - 56320))
                 else None
             | None \<Rightarrow> None)
          else None
      | _ \<Rightarrow> None)"

text \<open>
  The body of a string literal, after its opening quote: the decoded string and the text
  after the closing quote. A control character, an unknown escape or a missing closing
  quote is an error.
\<close>

fun scan_string :: "pystr \<Rightarrow> (pystr \<times> pystr) option" where
  "scan_string [] = None"
| "scan_string (c # cs) =
     (if c = ord CHR ''\"'' then Some ([], cs)
      else if c = ord CHR 0x5C then
        (case cs of
           [] \<Rightarrow> None
         | e # cs' \<Rightarrow>
             if e = ord CHR ''u'' then
               (case cs' of
                  a1 # a2 # a3 # a4 # rest \<Rightarrow>
                    (case hex4 a1 a2 a3 a4 of
                       None \<Rightarrow> None
                     | Some uni \<Rightarrow>
                         (case low_surrogate uni rest of
                            Some joined \<Rightarrow>
                              map_option (\<lambda>(s, r). (joined # s, r)) (scan_string (drop 6 rest))
                          | None \<Rightarrow> map_option (\<lambda>(s, r). (uni # s, r)) (scan_string rest)))
                | _ \<Rightarrow> None)
             else
               (case simple_escape e of
                  None \<Rightarrow> None
                | Some ch \<Rightarrow> map_option (\<lambda>(s, r). (ch # s, r)) (scan_string cs')))
      else if c < 32 then None
      else map_option (\<lambda>(s, r). (c # s, r)) (scan_string cs))"

text \<open>
  A number: an optional minus sign, an integer part without a leading zero, an optional
  fraction and an optional exponent, each taken as far as it reaches. Without fraction
  and exponent the value is an \<open>int\<close>, else a \<open>float\<close>.
\<close>

definition digits_value :: "pystr \<Rightarrow> int" where
  "digits_value ds = foldl (\<lambda>acc d. acc * 10 + (int d - int (ord CHR ''0''))) 0 ds"

definition scan_int_part :: "pystr \<Rightarrow> (pystr \<times> pystr) option" where
  "scan_int_part s =
     (case s of
        [] \<Rightarrow> None
      | d # ds \<Rightarrow>
          if d = ord CHR ''0'' then Some ([d], ds)
          else if is_digit d then Some (d # takeWhile is_digit ds, dropWhile is_digit ds)
          else None)"

definition scan_fraction :: "pystr \<Rightarrow> pystr \<times> pystr" where
  "scan_fraction s =
     (case s of
        p # d # ds \<Rightarrow>
          if p = ord CHR ''.'' \<and> is_digit d
          then (p # d # takeWhile is_digit ds, dropWhile is_digit ds)
          else ([], s)
      | _ \<Rightarrow> ([], s))"

definition scan_exponent :: "pystr \<Rightarrow> pystr \<times> pystr" where
  "scan_exponent s =
     (case s of
        e # r \<Rightarrow>
          if e = ord CHR ''e'' \<or> e = ord CHR ''E'' then
            (case r of
               g # r' \<Rightarrow>
                 if (g = ord CHR ''+'' \<or> g = ord CHR ''-'') \<and> takeWhile is_digit r' \<noteq> []
                 then (e # g # takeWhile is_digit r', dropWhile is_digit r')
                 else if takeWhile is_digit r \<noteq> []
                 then (e # takeWhile is_digit r, dropWhile is_digit r)
                 else ([], s)
             | [] \<Rightarrow> ([], s))
          else ([], s)
      | [] \<Rightarrow> ([], s))"

definition scan_number :: "pystr \<Rightarrow> (pyval \<times> pystr) option" where
  "scan_number s =
     (let neg = (case s of c # cs \<Rightarrow> c = ord CHR ''-'' | [] \<Rightarrow> False);
          s1 = (if neg then tl s else s)
      in case scan_int_part s1 of
           None \<Rightarrow> None
         | Some (ip, s2) \<Rightarrow>
             (let (fp, s3) = scan_fraction s2;
                  (ep, s4) = scan_exponent s3
              in if fp = [] \<and> ep = []
                 then Some (PInt (if neg then - digits_value ip else digits_value ip), s4)
                 else Some (PFloat ((if neg then [ord CHR ''-''] else []) @ ip @ fp @ ep), s4)))"

text \<open>The named constants of the decoder, the three of JSON and the three floats Python adds.\<close>

definition json_constants :: "(string \<times> pyval) list" where
  "json_constants =
     [(''null'', PNone), (''true'', PBool True), (''false'', PBool False),
      (''NaN'', PFloat (lit ''NaN'')), (''Infinity'', PFloat (lit ''Infinity'')),
      (''-Infinity'', PFloat (lit ''-Infinity''))]"

fun scan_constant :: "(string \<times> pyval) list \<Rightarrow> pystr \<Rightarrow> (pyval \<times> pystr) option" where
  "scan_constant [] s = None"
| "scan_constant ((name, v) # cs) s =
     (if prefix (lit name) s then Some (v, drop (length name) s) else scan_constant cs s)"

definition json_whitespace :: "nat \<Rightarrow> bool" where
  "json_whitespace c = (c = 32 \<or> c = 9 \<or> c = 10 \<or> c = 13)"

definition punctuation :: "nat \<Rightarrow> token option" where
  "punctuation c =
     (if c = ord CHR ''{'' then Some TLBrace
      else if c = ord CHR ''}'' then Some TRBrace
      else if c = ord CHR ''['' then Some TLBrack
      else if c = ord CHR '']'' then Some TRBrack
      else if c = ord CHR '','' then Some TComma
      else if c = ord CHR '':'' then Some TColon
      else None)"

text \<open>One token at the head of a non-empty text that does not start with whitespace.\<close>

definition scan_token :: "pystr \<Rightarrow> (token \<times> pystr) option" where
  "scan_token s =
     (case punctuation (hd s) of
        Some t \<Rightarrow> Some (t, tl s)
      | None \<Rightarrow>
          if hd s = ord CHR ''\"'' then map_option (\<lambda>(str, r). (TString str, r)) (scan_string (tl s))
          else (case scan_constant json_constants s of
                  Some (v, r) \<Rightarrow> Some (TScalar v, r)
                | None \<Rightarrow> map_option (\<lambda>(v, r). (TScalar v, r)) (scan_number s)))"

text \<open>Every scanner consumes at least one character, so cutting into tokens terminates.\<close>

lemma scan_string_length: "scan_string s = Some (str, r) \<Longrightarrow> length r < length s"
proof (induction s arbitrary: str r rule: scan_string.induct)
  case 1
  then show ?case by simp
next
  case (2 c cs)
  show ?case
    using "2.prems" "2.IH"
    by (fastforce split: if_splits list.splits option.splits)
qed

lemma length_dropWhile_less: "length (dropWhile P xs) < Suc (length xs)"
  by (simp add: length_dropWhile_le less_Suc_eq_le)

lemma scan_int_part_length: "scan_int_part s = Some (ip, r) \<Longrightarrow> length r < length s"
  by (auto simp: scan_int_part_def length_dropWhile_less split: list.splits if_splits)

lemma scan_fraction_length: "scan_fraction s = (fp, r) \<Longrightarrow> length r \<le> length s"
  by (auto simp: scan_fraction_def length_dropWhile_le le_SucI split: list.splits if_splits)

lemma scan_exponent_length: "scan_exponent s = (ep, r) \<Longrightarrow> length r \<le> length s"
  by (auto simp: scan_exponent_def length_dropWhile_le le_SucI split: list.splits if_splits)

lemma scan_number_length: "scan_number s = Some (v, r) \<Longrightarrow> length r < length s"
proof -
  assume a: "scan_number s = Some (v, r)"
  define s1 where
    "s1 = (if (case s of c # cs \<Rightarrow> c = ord CHR ''-'' | [] \<Rightarrow> False) then tl s else s)"
  have s1: "length s1 \<le> length s" by (simp add: s1_def)
  from a obtain ip s2 where ip: "scan_int_part s1 = Some (ip, s2)"
    by (auto simp: scan_number_def s1_def Let_def split: option.splits)
  obtain fp s3 where fp: "scan_fraction s2 = (fp, s3)" by force
  obtain ep s4 where ep: "scan_exponent s3 = (ep, s4)" by force
  from a ip fp ep have "r = s4"
    by (auto simp: scan_number_def s1_def Let_def split: if_splits)
  with scan_int_part_length[OF ip] scan_fraction_length[OF fp] scan_exponent_length[OF ep] s1
  show ?thesis by simp
qed

lemma scan_constant_length:
  "scan_constant cs s = Some (v, r) \<Longrightarrow> list_all (\<lambda>(n, v). n \<noteq> []) cs \<Longrightarrow> s \<noteq> []
   \<Longrightarrow> length r < length s"
  by (induction cs) (auto split: if_splits)

lemma scan_token_length: "scan_token s = Some (t, r) \<Longrightarrow> s \<noteq> [] \<Longrightarrow> length r < length s"
  unfolding scan_token_def
  by (auto split: option.splits if_splits
      dest!: scan_string_length scan_number_length
      dest: scan_constant_length simp: json_constants_def)

function tokenize :: "pystr \<Rightarrow> token list option" where
  "tokenize [] = Some []"
| "tokenize (c # cs) =
     (if json_whitespace c then tokenize cs
      else (case scan_token (c # cs) of
              None \<Rightarrow> None
            | Some (t, rest) \<Rightarrow> map_option (Cons t) (tokenize rest)))"
  by pat_completeness auto
termination
  by (relation "measure length") (auto dest: scan_token_length)

text \<open>
  The stack machine. A frame is an array or an object under construction; \<open>FKey\<close> is
  an object whose next value belongs to the key read last. In an object a repeated key
  keeps its first place and takes the last value, as building a \<open>dict\<close> does.
\<close>

datatype frame = FArr "pyval list" | FObj pydict | FKey pydict pystr

datatype expect = Value | ValueOrClose | KeyOrClose | Key | Colon | Separator

datatype parse_state = Run "frame list" expect | Done pyval | Failed

fun complete :: "pyval \<Rightarrow> frame list \<Rightarrow> parse_state" where
  "complete v [] = Done v"
| "complete v (FArr xs # st) = Run (FArr (xs @ [v]) # st) Separator"
| "complete v (FKey ms k # st) = Run (FObj (dict_set ms k v) # st) Separator"
| "complete v (FObj ms # st) = Failed"

fun close_array :: "frame list \<Rightarrow> parse_state" where
  "close_array (FArr xs # st) = complete (PList xs) st"
| "close_array _ = Failed"

fun close_object :: "frame list \<Rightarrow> parse_state" where
  "close_object (FObj ms # st) = complete (PDict ms) st"
| "close_object _ = Failed"

fun read_key :: "pystr \<Rightarrow> frame list \<Rightarrow> parse_state" where
  "read_key k (FObj ms # st) = Run (FKey ms k # st) Colon"
| "read_key k _ = Failed"

fun next_item :: "frame list \<Rightarrow> parse_state" where
  "next_item (FArr xs # st) = Run (FArr xs # st) Value"
| "next_item (FObj ms # st) = Run (FObj ms # st) Key"
| "next_item _ = Failed"

fun start_value :: "frame list \<Rightarrow> token \<Rightarrow> parse_state" where
  "start_value st (TScalar v) = complete v st"
| "start_value st (TString s) = complete (PStr s) st"
| "start_value st TLBrack = Run (FArr [] # st) ValueOrClose"
| "start_value st TLBrace = Run (FObj [] # st) KeyOrClose"
| "start_value st _ = Failed"

fun parse_step :: "parse_state \<Rightarrow> token \<Rightarrow> parse_state" where
  "parse_step (Run st Value) t = start_value st t"
| "parse_step (Run st ValueOrClose) t = (if t = TRBrack then close_array st else start_value st t)"
| "parse_step (Run st KeyOrClose) t =
     (case t of TString k \<Rightarrow> read_key k st | TRBrace \<Rightarrow> close_object st | _ \<Rightarrow> Failed)"
| "parse_step (Run st Key) t = (case t of TString k \<Rightarrow> read_key k st | _ \<Rightarrow> Failed)"
| "parse_step (Run st Colon) t = (if t = TColon then Run st Value else Failed)"
| "parse_step (Run st Separator) t =
     (case t of
        TComma \<Rightarrow> next_item st
      | TRBrack \<Rightarrow> close_array st
      | TRBrace \<Rightarrow> close_object st
      | _ \<Rightarrow> Failed)"
| "parse_step (Done v) t = Failed"
| "parse_step Failed t = Failed"

definition json_loads :: "pystr \<Rightarrow> py_error + pyval" where
  "json_loads s =
     (case tokenize s of
        None \<Rightarrow> Inl JSONDecodeError
      | Some ts \<Rightarrow>
          (case foldl parse_step (Run [] Value) ts of
             Done v \<Rightarrow> Inr v
           | _ \<Rightarrow> Inl JSONDecodeError))"

section \<open>The model capability\<close>

text \<open>
  A call of the language model either raises (the request fails, or the response has no
  text to read) or yields the completion text. What the model answers is not computed
  from the prompt: the outcome is an input of every operation that makes the call.
\<close>

datatype completion = Raises | Completion pystr

section \<open>Prioritisation (\<open>IncidentResponseAgent.analyze_incidents\<close>)\<close>

text \<open>
  \<open>v[:n]\<close> as \<open>_prepare_incident_summary\<close> applies it to a description: a string or a
  list is cut, any other value cannot be sliced.
\<close>

fun py_truncate :: "nat \<Rightarrow> pyval \<Rightarrow> py_error + pyval" where
  "py_truncate n (PStr s) = Inr (PStr (take n s))"
| "py_truncate n (PList xs) = Inr (PList (take n xs))"
| "py_truncate n _ = Inl TypeError"

definition summary_entry :: "pydict \<Rightarrow> py_error + pydict" where
  "summary_entry inc =
     py_bind (py_truncate 200 (dict_get inc (lit ''description'') (pstr ''''))) (\<lambda>description.
     Inr [(lit ''id'', dict_get inc (lit ''id'') PNone),
          (lit ''title'', dict_get inc (lit ''title'') PNone),
          (lit ''description'', description),
          (lit ''severity'', dict_get inc (lit ''severity'') PNone),
          (lit ''source'', dict_get inc (lit ''source'') PNone),
          (lit ''timestamp'', dict_get inc (lit ''timestamp'') PNone)])"

definition prepare_incident_summary :: "pydict list \<Rightarrow> py_error + pydict list" where
  "prepare_incident_summary incidents = map_res summary_entry (take 50 incidents)"

definition high_severity :: "pyval list" where
  "high_severity = [pstr ''Critical'', pstr ''High'', pstr ''critical'', pstr ''high'']"

definition medium_severity :: "pyval list" where
  "medium_severity = [pstr ''Medium'', pstr ''medium'']"

definition basic_prioritization :: "pydict list \<Rightarrow> pydict" where
  "basic_prioritization incidents =
     [(lit ''high_priority'',
         PList (map PDict (filter (\<lambda>inc. severity_of inc \<in> set high_severity) incidents))),
      (lit ''medium_priority'',
         PList (map PDict (filter (\<lambda>inc. severity_of inc \<in> set medium_severity) incidents))),
      (lit ''low_priority'',
         PList (map PDict
           (filter (\<lambda>inc. severity_of inc \<notin> set (high_severity @ medium_severity)) incidents))),
      (lit ''campaigns'', PList [])]"

text \<open>
  The summary for the prompt is prepared before the \<open>try\<close> block, so an exception there
  leaves \<open>analyze_incidents\<close>; every exception inside the block (the call, the decoding)
  is caught and answered by \<open>_basic_prioritization\<close>.
\<close>

definition analyze_incidents :: "completion \<Rightarrow> pydict list \<Rightarrow> py_error + pyval" where
  "analyze_incidents response incidents =
     py_bind (prepare_incident_summary incidents) (\<lambda>incident_summary.
       case response of
         Raises \<Rightarrow> Inr (PDict (basic_prioritization incidents))
       | Completion analysis_text \<Rightarrow>
           (let json_start = py_find analysis_text (lit ''{'');
                json_end = py_rfind analysis_text (lit ''}'') + 1
            in case json_loads (py_slice analysis_text json_start json_end) of
                 Inl e \<Rightarrow> Inr (PDict (basic_prioritization incidents))
               | Inr analysis \<Rightarrow> Inr analysis))"

section \<open>Investigation (\<open>IncidentResponseAgent.investigate_incident\<close>)\<close>

text \<open>
  An f-string formats a value with \<open>str\<close>. A string is inserted as it is; how the other
  values print is the parameter \<open>fmt\<close>.
\<close>

definition py_format :: "(pyval \<Rightarrow> pystr) \<Rightarrow> pyval \<Rightarrow> pystr" where
  "py_format fmt v = (case v of PStr s \<Rightarrow> s | _ \<Rightarrow> fmt v)"

definition build_timeline :: "(pyval \<Rightarrow> pystr) \<Rightarrow> pydict \<Rightarrow> pyval list" where
  "build_timeline fmt incident =
     [PDict [(lit ''timestamp'', dict_get incident (lit ''timestamp'') PNone),
             (lit ''description'',
                PStr (lit ''Incident detected: '' @
                      py_format fmt (dict_get incident (lit ''title'') PNone))),
             (lit ''source'', dict_get incident (lit ''source'') PNone),
             (lit ''indicators'', PList [])]]"

definition find_related_events :: "pydict \<Rightarrow> pyval list" where
  "find_related_events incident = []"

definition get_threat_intelligence :: "pydict \<Rightarrow> pydict" where
  "get_threat_intelligence incident =
     [(lit ''actor'', pstr ''Unknown''),
      (lit ''ttps'', PList []),
      (lit ''malware_family'', pstr ''Unknown'')]"

definition extract_affected_assets :: "pydict \<Rightarrow> pydict" where
  "extract_affected_assets incident = [(lit ''hosts'', PList []), (lit ''users'', PList [])]"

definition generate_investigation_summary :: "completion \<Rightarrow> pydict \<Rightarrow> pystr" where
  "generate_investigation_summary response investigation =
     (case response of
        Raises \<Rightarrow> lit ''Investigation summary unavailable.''
      | Completion text \<Rightarrow> text)"

definition investigate_incident ::
  "(pyval \<Rightarrow> pystr) \<Rightarrow> completion \<Rightarrow> pydict \<Rightarrow> bool \<Rightarrow> bool \<Rightarrow> bool \<Rightarrow> pydict" where
  "investigate_incident fmt response incident include_timeline include_related_events
       include_threat_intel =
     (let inv0 = [(lit ''incident_id'', dict_get incident (lit ''id'') PNone),
                  (lit ''timeline'', PList []),
                  (lit ''related_events'', PList []),
                  (lit ''threat_intel'', PDict []),
                  (lit ''affected_assets'', PDict []),
                  (lit ''ai_summary'', pstr '''')];
          inv1 = (if include_timeline
                  then dict_set inv0 (lit ''timeline'') (PList (build_timeline fmt incident))
                  else inv0);
          inv2 = (if include_related_events
                  then dict_set inv1 (lit ''related_events'') (PList (find_related_events incident))
                  else inv1);
          inv3 = (if include_threat_intel
                  then dict_set inv2 (lit ''threat_intel'') (PDict (get_threat_intelligence incident))
                  else inv2);
          inv4 = dict_set inv3 (lit ''affected_assets'') (PDict (extract_affected_assets incident))
      in dict_set inv4 (lit ''ai_summary'') (PStr (generate_investigation_summary response inv4)))"

section \<open>Hunting (\<open>ThreatHuntingEngine\<close>)\<close>

definition default_hypotheses :: "pyval" where
  "default_hypotheses =
     PList [PDict
       [(lit ''title'', pstr ''Suspicious User Behavior Pattern''),
        (lit ''priority'', pstr ''High''),
        (lit ''mitre_tactics'', PList [pstr ''Initial Access'', pstr ''Credential Access'']),
        (lit ''description'', pstr ''Hunt for users with anomalous login patterns''),
        (lit ''hunting_steps'',
           PList [pstr ''Review users with failed login attempts'',
                  pstr ''Check for logins from unusual locations'',
                  pstr ''Correlate with threat intelligence'']),
        (lit ''expected_indicators'',
           PList [pstr ''Multiple failed logins followed by success'',
                  pstr ''Logins from geographically distant locations'',
                  pstr ''Logins at unusual hours''])]]"

definition generate_hunting_hypotheses :: "completion \<Rightarrow> pydict \<Rightarrow> pyval" where
  "generate_hunting_hypotheses response findings =
     (case response of
        Raises \<Rightarrow> default_hypotheses
      | Completion response_text \<Rightarrow>
          (let json_start = py_find response_text (lit ''['');
               json_end = py_rfind response_text (lit '']'') + 1
           in if json_start \<ge> 0 \<and> json_end > json_start
              then (case json_loads (py_slice response_text json_start json_end) of
                      Inl e \<Rightarrow> default_hypotheses
                    | Inr hypotheses \<Rightarrow> hypotheses)
              else default_hypotheses))"

text \<open>\<open>len(x)\<close> of a returned value, where it has a length.\<close>

fun py_len :: "pyval \<Rightarrow> nat option" where
  "py_len (PList xs) = Some (length xs)"
| "py_len (PStr s) = Some (length s)"
| "py_len (PDict d) = Some (length d)"
| "py_len _ = None"

text \<open>
  The list comprehension over the lines of the text after \<open>ACTIONS:\<close>; \<open>10\<close> is the
  newline the text is split at.
\<close>

definition parse_actions :: "pystr \<Rightarrow> pyval list" where
  "parse_actions actions_text =
     map (\<lambda>line. PStr (py_strip (py_lstrip_chars (py_strip line) (lit ''-''))))
       (filter (\<lambda>line. py_startswith (py_strip line) (lit ''-''))
          (py_split actions_text 10))"

definition execute_hunt :: "completion \<Rightarrow> pydict \<Rightarrow> pydict \<Rightarrow> pydict" where
  "execute_hunt response hypothesis data_sources =
     (let results = [(lit ''status'', pstr ''completed''),
                     (lit ''evidence'', PList []),
                     (lit ''ai_summary'', pstr ''''),
                     (lit ''recommended_actions'', PList [])]
      in case response of
           Raises \<Rightarrow>
             dict_set results (lit ''ai_summary'')
               (pstr ''Hunt execution completed. Manual review recommended.'')
         | Completion response_text \<Rightarrow>
             if py_contains response_text (lit ''SUMMARY:'') then
               (let summary_start = py_find response_text (lit ''SUMMARY:'') + 8;
                    actions_start = py_find response_text (lit ''ACTIONS:'');
                    results1 = dict_set results (lit ''ai_summary'')
                      (PStr (py_strip (py_slice response_text summary_start actions_start)))
                in if actions_start > 0
                   then dict_set results1 (lit ''recommended_actions'')
                          (PList (parse_actions (py_slice_from response_text (actions_start + 8))))
                   else results1)
             else results)"

section \<open>Properties of the aggregation\<close>

lemma lit_eq_iff [simp]: "lit a = lit b \<longleftrightarrow> a = b"
  unfolding lit_def by (simp add: inj_on_def)

lemma lit_append: "lit (a @ b) = lit a @ lit b"
  by (simp add: lit_def)

lemma py_bind_Inr [simp]: "py_bind (Inr v) f = f v"
  by (simp add: py_bind_def)

lemma py_bind_Inl [simp]: "py_bind (Inl e) f = Inl e"
  by (simp add: py_bind_def)

lemma py_bind_eq_Inr: "py_bind m f = Inr r \<longleftrightarrow> (\<exists>v. m = Inr v \<and> f v = Inr r)"
  by (cases m) simp_all

lemma map_res_eq_Inr:
  "map_res f xs = Inr ys \<longleftrightarrow> list_all2 (\<lambda>x y. f x = Inr y) xs ys"
proof (induction xs arbitrary: ys)
  case Nil
  show ?case by auto
next
  case (Cons x xs)
  show ?case
    by (cases ys) (auto simp: py_bind_eq_Inr Cons.IH)
qed

lemma detection_incident_fields:
  "detection_incident x = Inr inc \<Longrightarrow>
     raw_data_of inc = x \<and> source_of inc = pstr ''CrowdStrike''"
  unfolding detection_incident_def raw_data_of_def source_of_def
  by (auto simp: py_bind_eq_Inr dict_get_def)

lemma cs_incident_fields:
  "cs_incident x = Inr inc \<Longrightarrow>
     raw_data_of inc = x \<and> source_of inc = pstr ''CrowdStrike''"
  unfolding cs_incident_def raw_data_of_def source_of_def
  by (auto simp: py_bind_eq_Inr dict_get_def)

lemma alert_incident_fields:
  "alert_incident x = Inr inc \<Longrightarrow>
     raw_data_of inc = x \<and> source_of inc = pstr ''Microsoft Defender''"
  unfolding alert_incident_def raw_data_of_def source_of_def
  by (auto simp: py_bind_eq_Inr dict_get_def)

lemma email_incident_fields:
  "email_incident x = Inr inc \<Longrightarrow>
     raw_data_of inc = x \<and> source_of inc = pstr ''Proofpoint''
     \<and> severity_of inc = pstr ''High''"
  unfolding email_incident_def raw_data_of_def source_of_def severity_of_def
  by (auto simp: py_bind_eq_Inr dict_get_def)

lemma email_loop_eq_Inr:
  "email_loop msgs = Inr incs \<Longrightarrow>
     list_all2 (\<lambda>x y. email_incident x = Inr y) (filter email_guard msgs) incs"
proof (induction msgs arbitrary: incs)
  case Nil
  then show ?case by simp
next
  case (Cons msg msgs)
  then show ?case
    by (auto simp: py_bind_eq_Inr email_guard_def split: if_splits)
qed

text \<open>
  A successful run is the concatenation of the four loops' results, each loop's results
  matching its records one by one.
\<close>

lemma aggregate_incidents_parts:
  assumes "aggregate_incidents cs_detections cs_incidents ms_alerts pp_events = Inr result"
  shows "\<exists>detections incidents alerts msgs incs1 incs2 incs3 incs4.
     payload_records cs_detections ''detections'' = Inr detections \<and>
     payload_records cs_incidents ''incidents'' = Inr incidents \<and>
     payload_records ms_alerts ''alerts'' = Inr alerts \<and>
     payload_records pp_events ''messages_blocked'' = Inr msgs \<and>
     list_all2 (\<lambda>x y. detection_incident x = Inr y) detections incs1 \<and>
     list_all2 (\<lambda>x y. cs_incident x = Inr y) incidents incs2 \<and>
     list_all2 (\<lambda>x y. alert_incident x = Inr y) alerts incs3 \<and>
     list_all2 (\<lambda>x y. email_incident x = Inr y) (filter email_guard msgs) incs4 \<and>
     result = incs1 @ incs2 @ incs3 @ incs4"
proof -
  from assms obtain detections incs1 incidents incs2 alerts incs3 msgs incs4 where
    "payload_records cs_detections ''detections'' = Inr detections"
    "map_res detection_incident detections = Inr incs1"
    "payload_records cs_incidents ''incidents'' = Inr incidents"
    "map_res cs_incident incidents = Inr incs2"
    "payload_records ms_alerts ''alerts'' = Inr alerts"
    "map_res alert_incident alerts = Inr incs3"
    "payload_records pp_events ''messages_blocked'' = Inr msgs"
    "email_loop msgs = Inr incs4"
    "result = incs1 @ incs2 @ incs3 @ incs4"
    unfolding aggregate_incidents_def by (auto simp: py_bind_eq_Inr)
  then show ?thesis
    using email_loop_eq_Inr[of msgs incs4] by (simp add: map_res_eq_Inr) blast
qed

lemma list_all2_map_right:
  "list_all2 (\<lambda>x y. f x = Inr y) xs ys \<Longrightarrow> (\<And>x y. f x = Inr y \<Longrightarrow> g y = x) \<Longrightarrow> map g ys = xs"
  by (induction xs ys rule: list_all2_induct) auto

lemma list_all2_all_right:
  "list_all2 (\<lambda>x y. f x = Inr y) xs ys \<Longrightarrow> (\<And>x y. f x = Inr y \<Longrightarrow> P y) \<Longrightarrow> list_all P ys"
  by (induction xs ys rule: list_all2_induct) auto

text \<open>The scenario, run.\<close>

lemma scenario_records:
  "payload_records scenario_cs_detections ''detections'' = Inr [scenario_detection]"
  "payload_records scenario_cs_incidents ''incidents'' = Inr []"
  "payload_records scenario_ms_alerts ''alerts'' = Inr [scenario_alert]"
  "payload_records scenario_pp_events ''messages_blocked'' = Inr [scenario_spam, scenario_attachment]"
  by (simp_all add: payload_records_def dict_get_def scenario_cs_detections_def
      scenario_cs_incidents_def scenario_ms_alerts_def scenario_pp_events_def)

lemma scenario_guard: "\<not> email_guard scenario_spam" "email_guard scenario_attachment"
  by (simp_all add: email_guard_def py_get_def dict_get_def high_value_threat_def
      scenario_spam_def scenario_attachment_def)

lemma scenario_aggregate:
  "aggregate_incidents scenario_cs_detections scenario_cs_incidents scenario_ms_alerts
     scenario_pp_events = Inr scenario_incidents"
  unfolding aggregate_incidents_def scenario_records
  by (simp add: detection_incident_def alert_incident_def email_incident_def
      py_get_def dict_get_def high_value_threat_def scenario_incidents_def
      scenario_detection_def scenario_alert_def scenario_spam_def scenario_attachment_def
      lit_append [symmetric])

text \<open>
  Claim C3. When \<open>aggregate_incidents\<close> returns, its list is the endpoint-detection
  incidents, then the endpoint-incident incidents, then the identity-alert incidents, then
  the incidents of the email records that pass the guard; each group has one incident per
  record, in the order of the payload, so the length of the list is the sum of the four
  counts of included records.
\<close>

theorem aggregate_incidents_source_order:
  assumes "aggregate_incidents cs_detections cs_incidents ms_alerts pp_events = Inr result"
  shows "\<exists>detections incidents alerts msgs incs1 incs2 incs3 incs4.
     payload_records cs_detections ''detections'' = Inr detections \<and>
     payload_records cs_incidents ''incidents'' = Inr incidents \<and>
     payload_records ms_alerts ''alerts'' = Inr alerts \<and>
     payload_records pp_events ''messages_blocked'' = Inr msgs \<and>
     list_all2 (\<lambda>x y. detection_incident x = Inr y) detections incs1 \<and>
     list_all2 (\<lambda>x y. cs_incident x = Inr y) incidents incs2 \<and>
     list_all2 (\<lambda>x y. alert_incident x = Inr y) alerts incs3 \<and>
     list_all2 (\<lambda>x y. email_incident x = Inr y) (filter email_guard msgs) incs4 \<and>
     result = incs1 @ incs2 @ incs3 @ incs4 \<and>
     length result =
       length detections + length incidents + length alerts + length (filter email_guard msgs)"
proof -
  from aggregate_incidents_parts[OF assms]
  obtain detections incidents alerts msgs incs1 incs2 incs3 incs4 where p:
    "payload_records cs_detections ''detections'' = Inr detections"
    "payload_records cs_incidents ''incidents'' = Inr incidents"
    "payload_records ms_alerts ''alerts'' = Inr alerts"
    "payload_records pp_events ''messages_blocked'' = Inr msgs"
    "list_all2 (\<lambda>x y. detection_incident x = Inr y) detections incs1"
    "list_all2 (\<lambda>x y. cs_incident x = Inr y) incidents incs2"
    "list_all2 (\<lambda>x y. alert_incident x = Inr y) alerts incs3"
    "list_all2 (\<lambda>x y. email_incident x = Inr y) (filter email_guard msgs) incs4"
    "result = incs1 @ incs2 @ incs3 @ incs4"
    by blast
  have "length result =
       length detections + length incidents + length alerts + length (filter email_guard msgs)"
    using p(5-9) by (simp add: list_all2_lengthD)
  with p show ?thesis by blast
qed

theorem aggregate_incidents_source_order_witness:
  "aggregate_incidents scenario_cs_detections scenario_cs_incidents scenario_ms_alerts
     scenario_pp_events = Inr scenario_incidents \<and>
   (\<exists>detections incidents alerts msgs incs1 incs2 incs3 incs4.
     payload_records scenario_cs_detections ''detections'' = Inr detections \<and>
     payload_records scenario_cs_incidents ''incidents'' = Inr incidents \<and>
     payload_records scenario_ms_alerts ''alerts'' = Inr alerts \<and>
     payload_records scenario_pp_events ''messages_blocked'' = Inr msgs \<and>
     list_all2 (\<lambda>x y. detection_incident x = Inr y) detections incs1 \<and>
     list_all2 (\<lambda>x y. cs_incident x = Inr y) incidents incs2 \<and>
     list_all2 (\<lambda>x y. alert_incident x = Inr y) alerts incs3 \<and>
     list_all2 (\<lambda>x y. email_incident x = Inr y) (filter email_guard msgs) incs4 \<and>
     scenario_incidents = incs1 @ incs2 @ incs3 @ incs4 \<and>
     length scenario_incidents =
       length detections + length incidents + length alerts + length (filter email_guard msgs))"
  by (rule conjI[OF scenario_aggregate aggregate_incidents_source_order[OF scenario_aggregate]])

text \<open>
  Claim C9. When \<open>aggregate_incidents\<close> returns, the \<open>raw_data\<close> fields of its incidents,
  read in order, are exactly the records the incidents were made from: the detections,
  the endpoint incidents, the alerts and the email records that pass the guard, each
  unchanged.
\<close>

theorem aggregate_incidents_raw_data:
  assumes "aggregate_incidents cs_detections cs_incidents ms_alerts pp_events = Inr result"
    and "payload_records cs_detections ''detections'' = Inr detections"
    and "payload_records cs_incidents ''incidents'' = Inr incidents"
    and "payload_records ms_alerts ''alerts'' = Inr alerts"
    and "payload_records pp_events ''messages_blocked'' = Inr msgs"
  shows "map raw_data_of result = detections @ incidents @ alerts @ filter email_guard msgs"
proof -
  from aggregate_incidents_parts[OF assms(1)] assms(2-5)
  obtain incs1 incs2 incs3 incs4 where p:
    "list_all2 (\<lambda>x y. detection_incident x = Inr y) detections incs1"
    "list_all2 (\<lambda>x y. cs_incident x = Inr y) incidents incs2"
    "list_all2 (\<lambda>x y. alert_incident x = Inr y) alerts incs3"
    "list_all2 (\<lambda>x y. email_incident x = Inr y) (filter email_guard msgs) incs4"
    "result = incs1 @ incs2 @ incs3 @ incs4"
    by auto
  have "map raw_data_of incs1 = detections"
    using p(1) by (rule list_all2_map_right) (simp add: detection_incident_fields)
  moreover have "map raw_data_of incs2 = incidents"
    using p(2) by (rule list_all2_map_right) (simp add: cs_incident_fields)
  moreover have "map raw_data_of incs3 = alerts"
    using p(3) by (rule list_all2_map_right) (simp add: alert_incident_fields)
  moreover have "map raw_data_of incs4 = filter email_guard msgs"
    using p(4) by (rule list_all2_map_right) (simp add: email_incident_fields)
  ultimately show ?thesis by (simp add: p(5))
qed

theorem aggregate_incidents_raw_data_witness:
  "aggregate_incidents scenario_cs_detections scenario_cs_incidents scenario_ms_alerts
     scenario_pp_events = Inr scenario_incidents \<and>
   map raw_data_of scenario_incidents = [scenario_detection, scenario_alert, scenario_attachment]"
  using aggregate_incidents_raw_data[OF scenario_aggregate scenario_records]
  by (simp add: scenario_aggregate scenario_guard)

text \<open>
  Claim C2. When \<open>aggregate_incidents\<close> returns, the incidents whose source is
  \<open>Proofpoint\<close> are made from exactly the blocked-message records whose \<open>threatType\<close> is
  \<open>'url'\<close> or \<open>'attachment'\<close>: a record of the payload is the \<open>raw_data\<close> of such an incident
  if and only if it passes that test. Every such incident has severity \<open>'High'\<close>, whatever
  the record holds.
\<close>

theorem email_records_included_iff:
  assumes "aggregate_incidents cs_detections cs_incidents ms_alerts pp_events = Inr result"
    and "payload_records pp_events ''messages_blocked'' = Inr msgs"
  shows "map raw_data_of (filter (\<lambda>inc. source_of inc = pstr ''Proofpoint'') result)
           = filter email_guard msgs
       \<and> (\<forall>msg \<in> set msgs.
             (\<exists>inc \<in> set result. source_of inc = pstr ''Proofpoint'' \<and> raw_data_of inc = msg)
             \<longleftrightarrow> email_guard msg)
       \<and> list_all (\<lambda>inc. severity_of inc = pstr ''High'')
             (filter (\<lambda>inc. source_of inc = pstr ''Proofpoint'') result)
       \<and> (\<forall>d. email_guard (PDict d) \<longleftrightarrow>
               map_of d (lit ''threatType'') = Some (pstr ''url'')
             \<or> map_of d (lit ''threatType'') = Some (pstr ''attachment''))"
proof -
  let ?pp = "\<lambda>inc. source_of inc = pstr ''Proofpoint''"
  from aggregate_incidents_parts[OF assms(1)] assms(2)
  obtain detections incidents alerts incs1 incs2 incs3 incs4 where p:
    "list_all2 (\<lambda>x y. detection_incident x = Inr y) detections incs1"
    "list_all2 (\<lambda>x y. cs_incident x = Inr y) incidents incs2"
    "list_all2 (\<lambda>x y. alert_incident x = Inr y) alerts incs3"
    "list_all2 (\<lambda>x y. email_incident x = Inr y) (filter email_guard msgs) incs4"
    "result = incs1 @ incs2 @ incs3 @ incs4"
    by auto
  have "list_all (\<lambda>inc. \<not> ?pp inc) incs1"
    using p(1) by (rule list_all2_all_right) (simp add: detection_incident_fields)
  then have f1: "filter ?pp incs1 = []"
    by (simp add: list_all_iff)
  have "list_all (\<lambda>inc. \<not> ?pp inc) incs2"
    using p(2) by (rule list_all2_all_right) (simp add: cs_incident_fields)
  then have f2: "filter ?pp incs2 = []"
    by (simp add: list_all_iff)
  have "list_all (\<lambda>inc. \<not> ?pp inc) incs3"
    using p(3) by (rule list_all2_all_right) (simp add: alert_incident_fields)
  then have f3: "filter ?pp incs3 = []"
    by (simp add: list_all_iff)
  have "list_all ?pp incs4"
    using p(4) by (rule list_all2_all_right) (simp add: email_incident_fields)
  then have f4: "filter ?pp incs4 = incs4"
    by (simp add: list_all_iff)
  have fr: "filter ?pp result = incs4"
    by (simp add: p(5) f1 f2 f3 f4)
  have raw: "map raw_data_of incs4 = filter email_guard msgs"
    using p(4) by (rule list_all2_map_right) (simp add: email_incident_fields)
  have sev: "list_all (\<lambda>inc. severity_of inc = pstr ''High'') incs4"
    using p(4) by (rule list_all2_all_right) (simp add: email_incident_fields)
  have eq: "map raw_data_of (filter ?pp result) = filter email_guard msgs"
    by (simp only: fr raw)
  have iff: "\<forall>msg \<in> set msgs.
      (\<exists>inc \<in> set result. ?pp inc \<and> raw_data_of inc = msg) \<longleftrightarrow> email_guard msg"
  proof (intro ballI iffI)
    fix msg
    assume "\<exists>inc \<in> set result. ?pp inc \<and> raw_data_of inc = msg"
    then obtain inc where "inc \<in> set (filter ?pp result)" "raw_data_of inc = msg"
      by auto
    then have "msg \<in> set (map raw_data_of (filter ?pp result))"
      by force
    then show "email_guard msg"
      unfolding eq by simp
  next
    fix msg
    assume "msg \<in> set msgs" "email_guard msg"
    then have "msg \<in> set (filter email_guard msgs)"
      by simp
    then have "msg \<in> set (map raw_data_of (filter ?pp result))"
      unfolding eq .
    then show "\<exists>inc \<in> set result. ?pp inc \<and> raw_data_of inc = msg"
      by auto
  qed
  have guard: "\<forall>d. email_guard (PDict d) \<longleftrightarrow>
               map_of d (lit ''threatType'') = Some (pstr ''url'')
             \<or> map_of d (lit ''threatType'') = Some (pstr ''attachment'')"
    by (auto simp: email_guard_def py_get_def dict_get_def high_value_threat_def
        split: option.splits)
  show ?thesis
    using fr raw sev iff guard by simp
qed

theorem email_records_included_iff_witness:
  "aggregate_incidents scenario_cs_detections scenario_cs_incidents scenario_ms_alerts
     scenario_pp_events = Inr scenario_incidents \<and>
   map raw_data_of (filter (\<lambda>inc. source_of inc = pstr ''Proofpoint'') scenario_incidents)
     = [scenario_attachment] \<and>
   list_all (\<lambda>inc. severity_of inc = pstr ''High'')
     (filter (\<lambda>inc. source_of inc = pstr ''Proofpoint'') scenario_incidents)"
  using email_records_included_iff[OF scenario_aggregate scenario_records(4)]
  by (simp add: scenario_aggregate scenario_guard)

text \<open>
  A detection whose \<open>behaviors\<close> can be read: the key is absent (the default \<open>[{}]\<close> is
  used) or its value is a list that starts with a dictionary.
\<close>

definition behaviors_ok :: "pyval \<Rightarrow> bool" where
  "behaviors_ok x =
     (case x of
        PDict d \<Rightarrow>
          (case map_of d (lit ''behaviors'') of
             None \<Rightarrow> True
           | Some bs \<Rightarrow> (case bs of PList (b # rest) \<Rightarrow> is_dict b | _ \<Rightarrow> False))
      | _ \<Rightarrow> False)"

lemma is_dict_iff: "is_dict x \<longleftrightarrow> (\<exists>d. x = PDict d)"
  by (cases x) (simp_all add: is_dict_def)

lemma lacks_iff: "lacks x key \<longleftrightarrow> (\<exists>d. x = PDict d \<and> map_of d (lit key) = None)"
  by (cases x) (simp_all add: lacks_def)

lemma detection_incident_absent:
  assumes "lacks x ''behaviors''"
  shows "\<exists>inc. detection_incident x = Inr inc \<and> title_of inc = pstr ''Unknown''
           \<and> description_of inc = pstr ''''
           \<and> (lacks x ''max_severity_displayname'' \<longrightarrow> severity_of inc = pstr ''Unknown'')"
  using assms
  by (auto simp: lacks_iff detection_incident_def py_get_def dict_get_def title_of_def
      description_of_def severity_of_def)

lemma detection_incident_first_behavior:
  assumes "x = PDict d" and "map_of d (lit ''behaviors'') = Some (PList (PDict b # rest))"
  shows "\<exists>inc. detection_incident x = Inr inc
           \<and> (map_of b (lit ''scenario'') = None \<longrightarrow> title_of inc = pstr ''Unknown'')
           \<and> (map_of b (lit ''description'') = None \<longrightarrow> description_of inc = pstr '''')
           \<and> (lacks x ''max_severity_displayname'' \<longrightarrow> severity_of inc = pstr ''Unknown'')"
  using assms
  by (auto simp: lacks_iff detection_incident_def py_get_def dict_get_def title_of_def
      description_of_def severity_of_def)

lemma cs_incident_defaults:
  assumes "is_dict x"
  shows "\<exists>inc. cs_incident x = Inr inc
           \<and> (lacks x ''name'' \<longrightarrow> title_of inc = pstr ''Unnamed Incident'')
           \<and> (lacks x ''description'' \<longrightarrow> description_of inc = pstr '''')
           \<and> (lacks x ''state'' \<longrightarrow> severity_of inc = pstr ''Unknown'')"
  using assms
  by (auto simp: is_dict_iff lacks_iff cs_incident_def py_get_def dict_get_def title_of_def
      description_of_def severity_of_def)

lemma alert_incident_defaults:
  assumes "is_dict x"
  shows "\<exists>inc. alert_incident x = Inr inc
           \<and> (lacks x ''title'' \<longrightarrow> title_of inc = pstr ''Unknown Alert'')
           \<and> (lacks x ''description'' \<longrightarrow> description_of inc = pstr '''')
           \<and> (lacks x ''severity'' \<longrightarrow> severity_of inc = pstr ''Unknown'')"
  using assms
  by (auto simp: is_dict_iff lacks_iff alert_incident_def py_get_def dict_get_def title_of_def
      description_of_def severity_of_def)

lemma email_incident_defaults:
  assumes "is_dict x"
  shows "\<exists>inc. email_incident x = Inr inc
           \<and> (lacks x ''subject'' \<longrightarrow> description_of inc = pstr '''')"
  using assms
  by (auto simp: is_dict_iff lacks_iff email_incident_def py_get_def dict_get_def
      description_of_def)

lemma behaviors_ok_succeeds:
  assumes "behaviors_ok x"
  shows "\<exists>inc. detection_incident x = Inr inc"
proof -
  from assms obtain d where x: "x = PDict d"
    by (cases x) (simp_all add: behaviors_ok_def)
  show ?thesis
  proof (cases "map_of d (lit ''behaviors'')")
    case None
    then have "lacks x ''behaviors''" by (simp add: x lacks_def)
    from detection_incident_absent[OF this] show ?thesis by blast
  next
    case (Some bs)
    with assms x obtain b rest where "bs = PList (PDict b # rest)"
      by (auto simp: behaviors_ok_def is_dict_iff split: pyval.splits list.splits)
    with Some detection_incident_first_behavior[OF x] show ?thesis by blast
  qed
qed

lemma map_res_total:
  "list_all (\<lambda>x. \<exists>y. f x = Inr y) xs \<Longrightarrow> \<exists>ys. map_res f xs = Inr ys"
  by (induction xs) auto

lemma list_all_mono: "list_all P xs \<Longrightarrow> (\<And>x. P x \<Longrightarrow> Q x) \<Longrightarrow> list_all Q xs"
  by (induction xs) auto

lemma email_loop_total:
  "list_all is_dict msgs \<Longrightarrow> \<exists>incs. email_loop msgs = Inr incs"
proof (induction msgs)
  case Nil
  show ?case by simp
next
  case (Cons msg msgs)
  then obtain incs where incs: "email_loop msgs = Inr incs" by auto
  from Cons.prems obtain d where d: "msg = PDict d" by (auto simp: is_dict_iff)
  from Cons.prems email_incident_defaults[of msg] obtain inc where "email_incident msg = Inr inc"
    by auto
  with incs d show ?case by (simp add: py_get_def)
qed

lemma aggregate_incidents_total:
  assumes "payload_records cs_detections ''detections'' = Inr detections"
    and "payload_records cs_incidents ''incidents'' = Inr incidents"
    and "payload_records ms_alerts ''alerts'' = Inr alerts"
    and "payload_records pp_events ''messages_blocked'' = Inr msgs"
    and "list_all behaviors_ok detections" and "list_all is_dict incidents"
    and "list_all is_dict alerts" and "list_all is_dict msgs"
  shows "\<exists>result. aggregate_incidents cs_detections cs_incidents ms_alerts pp_events = Inr result"
proof -
  have "list_all (\<lambda>x. \<exists>y. detection_incident x = Inr y) detections"
    using assms(5) by (rule list_all_mono) (rule behaviors_ok_succeeds)
  then obtain incs1 where 1: "map_res detection_incident detections = Inr incs1"
    using map_res_total by blast
  have "list_all (\<lambda>x. \<exists>y. cs_incident x = Inr y) incidents"
    using assms(6) by (rule list_all_mono) (use cs_incident_defaults in blast)
  then obtain incs2 where 2: "map_res cs_incident incidents = Inr incs2"
    using map_res_total by blast
  have "list_all (\<lambda>x. \<exists>y. alert_incident x = Inr y) alerts"
    using assms(7) by (rule list_all_mono) (use alert_incident_defaults in blast)
  then obtain incs3 where 3: "map_res alert_incident alerts = Inr incs3"
    using map_res_total by blast
  from email_loop_total[OF assms(8)] obtain incs4 where 4: "email_loop msgs = Inr incs4"
    by blast
  show ?thesis
    by (simp add: aggregate_incidents_def assms(1-4) 1 2 3 4)
qed

text \<open>
  Claim C4, as the code has it. A record that is a dictionary never makes its loop body
  fail when the optional fields are absent, and \<open>aggregate_incidents\<close> returns on payloads
  of such records. The defaults are: title \<open>'Unknown'\<close> for a detection (no \<open>behaviors\<close>, or
  a first behaviour without \<open>scenario\<close>), \<open>'Unnamed Incident'\<close> for an endpoint incident and
  \<open>'Unknown Alert'\<close> for an identity alert; severity \<open>'Unknown'\<close> for these three shapes;
  description the empty string for all four shapes.
\<close>

theorem missing_fields_defaults:
  "(payload_records cs_detections ''detections'' = Inr detections \<and>
    payload_records cs_incidents ''incidents'' = Inr incidents \<and>
    payload_records ms_alerts ''alerts'' = Inr alerts \<and>
    payload_records pp_events ''messages_blocked'' = Inr msgs \<and>
    list_all behaviors_ok detections \<and> list_all is_dict incidents \<and>
    list_all is_dict alerts \<and> list_all is_dict msgs
    \<longrightarrow> (\<exists>result. aggregate_incidents cs_detections cs_incidents ms_alerts pp_events
                     = Inr result))
   \<and> (lacks x ''behaviors'' \<longrightarrow>
        (\<exists>inc. detection_incident x = Inr inc \<and> title_of inc = pstr ''Unknown''
           \<and> description_of inc = pstr ''''
           \<and> (lacks x ''max_severity_displayname'' \<longrightarrow> severity_of inc = pstr ''Unknown'')))
   \<and> (map_of d (lit ''behaviors'') = Some (PList (PDict b # rest)) \<longrightarrow>
        (\<exists>inc. detection_incident (PDict d) = Inr inc
           \<and> (map_of b (lit ''scenario'') = None \<longrightarrow> title_of inc = pstr ''Unknown'')
           \<and> (map_of b (lit ''description'') = None \<longrightarrow> description_of inc = pstr '''')
           \<and> (lacks (PDict d) ''max_severity_displayname''
                \<longrightarrow> severity_of inc = pstr ''Unknown'')))
   \<and> (is_dict x \<longrightarrow>
        (\<exists>inc. cs_incident x = Inr inc
           \<and> (lacks x ''name'' \<longrightarrow> title_of inc = pstr ''Unnamed Incident'')
           \<and> (lacks x ''description'' \<longrightarrow> description_of inc = pstr '''')
           \<and> (lacks x ''state'' \<longrightarrow> severity_of inc = pstr ''Unknown'')))
   \<and> (is_dict x \<longrightarrow>
        (\<exists>inc. alert_incident x = Inr inc
           \<and> (lacks x ''title'' \<longrightarrow> title_of inc = pstr ''Unknown Alert'')
           \<and> (lacks x ''description'' \<longrightarrow> description_of inc = pstr '''')
           \<and> (lacks x ''severity'' \<longrightarrow> severity_of inc = pstr ''Unknown'')))
   \<and> (email_guard msg \<longrightarrow>
        (\<exists>inc. email_incident msg = Inr inc
           \<and> (lacks msg ''subject'' \<longrightarrow> description_of inc = pstr '''')))"
proof (intro conjI impI)
  assume "payload_records cs_detections ''detections'' = Inr detections \<and>
    payload_records cs_incidents ''incidents'' = Inr incidents \<and>
    payload_records ms_alerts ''alerts'' = Inr alerts \<and>
    payload_records pp_events ''messages_blocked'' = Inr msgs \<and>
    list_all behaviors_ok detections \<and> list_all is_dict incidents \<and>
    list_all is_dict alerts \<and> list_all is_dict msgs"
  then show "\<exists>result. aggregate_incidents cs_detections cs_incidents ms_alerts pp_events
                     = Inr result"
    using aggregate_incidents_total by blast
next
  assume "lacks x ''behaviors''"
  then show "\<exists>inc. detection_incident x = Inr inc \<and> title_of inc = pstr ''Unknown''
           \<and> description_of inc = pstr ''''
           \<and> (lacks x ''max_severity_displayname'' \<longrightarrow> severity_of inc = pstr ''Unknown'')"
    by (rule detection_incident_absent)
next
  assume "map_of d (lit ''behaviors'') = Some (PList (PDict b # rest))"
  then show "\<exists>inc. detection_incident (PDict d) = Inr inc
           \<and> (map_of b (lit ''scenario'') = None \<longrightarrow> title_of inc = pstr ''Unknown'')
           \<and> (map_of b (lit ''description'') = None \<longrightarrow> description_of inc = pstr '''')
           \<and> (lacks (PDict d) ''max_severity_displayname''
                \<longrightarrow> severity_of inc = pstr ''Unknown'')"
    by (rule detection_incident_first_behavior[OF refl])
next
  assume "is_dict x"
  then show "\<exists>inc. cs_incident x = Inr inc
           \<and> (lacks x ''name'' \<longrightarrow> title_of inc = pstr ''Unnamed Incident'')
           \<and> (lacks x ''description'' \<longrightarrow> description_of inc = pstr '''')
           \<and> (lacks x ''state'' \<longrightarrow> severity_of inc = pstr ''Unknown'')"
    by (rule cs_incident_defaults)
next
  assume "is_dict x"
  then show "\<exists>inc. alert_incident x = Inr inc
           \<and> (lacks x ''title'' \<longrightarrow> title_of inc = pstr ''Unknown Alert'')
           \<and> (lacks x ''description'' \<longrightarrow> description_of inc = pstr '''')
           \<and> (lacks x ''severity'' \<longrightarrow> severity_of inc = pstr ''Unknown'')"
    by (rule alert_incident_defaults)
next
  assume "email_guard msg"
  then have "is_dict msg"
    by (cases msg) (simp_all add: email_guard_def py_get_def is_dict_def)
  then show "\<exists>inc. email_incident msg = Inr inc
           \<and> (lacks msg ''subject'' \<longrightarrow> description_of inc = pstr '''')"
    by (rule email_incident_defaults)
qed

lemma is_dict_PDict: "is_dict (PDict d)"
  by (simp add: is_dict_def)

lemma lacks_PDict: "lacks (PDict d) key \<longleftrightarrow> map_of d (lit key) = None"
  by (simp add: lacks_def)

lemma scenario_shapes:
  "behaviors_ok scenario_detection" "is_dict scenario_alert" "is_dict scenario_spam"
  "is_dict scenario_attachment" "lacks scenario_attachment ''subject''"
  by (simp_all add: behaviors_ok_def is_dict_def lacks_def scenario_detection_def
      scenario_alert_def scenario_spam_def scenario_attachment_def)

theorem missing_fields_defaults_witness:
  "(\<exists>result. aggregate_incidents scenario_cs_detections scenario_cs_incidents
       scenario_ms_alerts scenario_pp_events = Inr result)
   \<and> (\<exists>inc. detection_incident (PDict []) = Inr inc \<and> title_of inc = pstr ''Unknown''
         \<and> description_of inc = pstr '''' \<and> severity_of inc = pstr ''Unknown'')
   \<and> (\<exists>inc. detection_incident (PDict [(lit ''behaviors'', PList [PDict []])]) = Inr inc
         \<and> title_of inc = pstr ''Unknown'' \<and> description_of inc = pstr ''''
         \<and> severity_of inc = pstr ''Unknown'')
   \<and> (\<exists>inc. cs_incident (PDict []) = Inr inc \<and> title_of inc = pstr ''Unnamed Incident''
         \<and> description_of inc = pstr '''' \<and> severity_of inc = pstr ''Unknown'')
   \<and> (\<exists>inc. alert_incident (PDict []) = Inr inc \<and> title_of inc = pstr ''Unknown Alert''
         \<and> description_of inc = pstr '''' \<and> severity_of inc = pstr ''Unknown'')
   \<and> (\<exists>inc. email_incident scenario_attachment = Inr inc \<and> description_of inc = pstr '''')"
  using missing_fields_defaults[where cs_detections = scenario_cs_detections
      and detections = "[scenario_detection]"
      and cs_incidents = scenario_cs_incidents and incidents = "[]"
      and ms_alerts = scenario_ms_alerts and alerts = "[scenario_alert]"
      and pp_events = scenario_pp_events and msgs = "[scenario_spam, scenario_attachment]"
      and x = "PDict []" and d = "[(lit ''behaviors'', PList [PDict []])]"
      and b = "[]" and rest = "[]" and msg = scenario_attachment]
  by (simp add: scenario_records scenario_guard scenario_shapes is_dict_PDict lacks_PDict)

text \<open>
  An identity alert without a title gets the title \<open>'Unknown Alert'\<close>, which is neither
  \<open>'Unknown'\<close> nor \<open>'Unnamed Incident'\<close>.
\<close>

theorem alert_default_title_counterexample:
  "aggregate_incidents [] [] [(lit ''alerts'', PList [PDict []])] []
     = Inr [[(lit ''id'', PNone),
             (lit ''title'', pstr ''Unknown Alert''),
             (lit ''description'', pstr ''''),
             (lit ''severity'', pstr ''Unknown''),
             (lit ''source'', pstr ''Microsoft Defender''),
             (lit ''timestamp'', PNone),
             (lit ''raw_data'', PDict [])]]
   \<and> pstr ''Unknown Alert'' \<noteq> pstr ''Unknown''
   \<and> pstr ''Unknown Alert'' \<noteq> pstr ''Unnamed Incident''"
  by (simp add: aggregate_incidents_def payload_records_def alert_incident_def py_get_def
      dict_get_def)

text \<open>
  A detection whose \<open>behaviors\<close> is present and empty is outside the statement above:
  indexing the empty list raises.
\<close>

lemma empty_behaviors_raises:
  "detection_incident (PDict [(lit ''behaviors'', PList [])]) = Inl IndexError"
  "aggregate_incidents [(lit ''detections'', PList [PDict [(lit ''behaviors'', PList [])]])] [] [] []
     = Inl IndexError"
  by (simp_all add: aggregate_incidents_def payload_records_def detection_incident_def
      py_get_def dict_get_def)

section \<open>Properties of the search for a bracketed text\<close>

text \<open>
  \<open>has_pair opening closing text\<close>: the text holds the opening character and, somewhere
  after its first occurrence, the closing character.
\<close>

definition has_pair :: "nat \<Rightarrow> nat \<Rightarrow> pystr \<Rightarrow> bool" where
  "has_pair opening closing text = (closing \<in> set (dropWhile (\<lambda>c. c \<noteq> opening) text))"

lemma find_sub_single:
  "find_sub [c] s = (if c \<in> set s then Some (length (takeWhile (\<lambda>x. x \<noteq> c) s)) else None)"
  by (induction s) auto

lemma rfind_sub_single_None: "rfind_sub [c] s = None \<longleftrightarrow> c \<notin> set s"
  by (induction s) (auto split: option.splits)

lemma rfind_sub_single_Some:
  "rfind_sub [c] s = Some j \<Longrightarrow> j < length s \<and> s ! j = c \<and> c \<notin> set (drop (Suc j) s)"
proof (induction s arbitrary: j)
  case Nil
  then show ?case by simp
next
  case (Cons a s)
  show ?case
  proof (cases "rfind_sub [c] s")
    case None
    with Cons.prems have "a = c" "j = 0" by (auto split: if_splits)
    with None show ?thesis by (simp add: rfind_sub_single_None)
  next
    case (Some i)
    with Cons.prems have "j = Suc i" by simp
    with Cons.IH[OF Some] show ?thesis by simp
  qed
qed

lemma dropWhile_eq_drop_takeWhile: "dropWhile P s = drop (length (takeWhile P s)) s"
  by (induction s) auto

lemma dropWhile_absent: "c \<notin> set s \<Longrightarrow> dropWhile (\<lambda>x. x \<noteq> c) s = []"
  by (induction s) auto

lemma nth_in_set_drop: "i \<le> j \<Longrightarrow> j < length s \<Longrightarrow> s ! j \<in> set (drop i s)"
proof -
  assume a: "i \<le> j" "j < length s"
  then have "drop i s ! (j - i) = s ! j" by simp
  moreover from a have "j - i < length (drop i s)" by simp
  ultimately show ?thesis by (metis nth_mem)
qed

text \<open>
  The test \<open>json_start >= 0 and json_end > json_start\<close> on the two indices holds exactly
  when the text has the pair.
\<close>

lemma pair_iff:
  assumes "c1 \<noteq> c2"
  shows "(0 \<le> py_find s [c1] \<and> py_find s [c1] < py_rfind s [c2] + 1) \<longleftrightarrow> has_pair c1 c2 s"
proof (cases "c1 \<in> set s")
  case False
  then show ?thesis
    by (simp add: py_find_def find_sub_single has_pair_def dropWhile_absent)
next
  case True
  define i where "i = length (takeWhile (\<lambda>x. x \<noteq> c1) s)"
  have f: "py_find s [c1] = int i"
    using True by (simp add: py_find_def find_sub_single i_def)
  have d: "dropWhile (\<lambda>c. c \<noteq> c1) s = drop i s"
    unfolding i_def by (rule dropWhile_eq_drop_takeWhile)
  show ?thesis
  proof
    assume l: "0 \<le> py_find s [c1] \<and> py_find s [c1] < py_rfind s [c2] + 1"
    then obtain j where j: "rfind_sub [c2] s = Some j"
      by (cases "rfind_sub [c2] s") (auto simp: py_rfind_def f)
    with l have ij: "i \<le> j" by (simp add: py_rfind_def f)
    from rfind_sub_single_Some[OF j] have "j < length s" "s ! j = c2" by auto
    with ij have "c2 \<in> set (drop i s)"
      using nth_in_set_drop[of i j s] by simp
    then show "has_pair c1 c2 s" by (simp add: has_pair_def d)
  next
    assume "has_pair c1 c2 s"
    then have m: "c2 \<in> set (drop i s)" by (simp add: has_pair_def d)
    then have "c2 \<in> set s" by (rule in_set_dropD)
    then obtain j where j: "rfind_sub [c2] s = Some j"
      using rfind_sub_single_None[of c2 s] by (cases "rfind_sub [c2] s") auto
    from rfind_sub_single_Some[OF j] have n: "c2 \<notin> set (drop (Suc j) s)" by simp
    have "i \<le> j"
    proof (rule ccontr)
      assume "\<not> i \<le> j"
      then have "Suc j \<le> i" by simp
      then have "set (drop i s) \<subseteq> set (drop (Suc j) s)" by (rule set_drop_subset_set_drop)
      with m n show False by auto
    qed
    then show "0 \<le> py_find s [c1] \<and> py_find s [c1] < py_rfind s [c2] + 1"
      by (simp add: f py_rfind_def j)
  qed
qed

text \<open>
  Without the pair, the slice from the first opening character to the last closing one is
  empty, or is the closing character alone (when the opening one is absent and the text
  ends with the closing one: the start index \<open>-1\<close> then means the last character).
\<close>

lemma no_pair_slice:
  assumes "c1 \<noteq> c2" and "\<not> has_pair c1 c2 s"
  shows "py_slice s (py_find s [c1]) (py_rfind s [c2] + 1) = []
       \<or> py_slice s (py_find s [c1]) (py_rfind s [c2] + 1) = [c2]"
proof (cases "c1 \<in> set s")
  case False
  then have f: "py_find s [c1] = - 1"
    by (simp add: py_find_def find_sub_single)
  show ?thesis
  proof (cases "rfind_sub [c2] s")
    case None
    then show ?thesis by (simp add: py_slice_def py_clamp_def py_rfind_def f)
  next
    case (Some j)
    from rfind_sub_single_Some[OF Some] have j: "j < length s" "s ! j = c2" by auto
    show ?thesis
    proof (cases "Suc j = length s")
      case True
      then have len: "length s = Suc j" by simp
      have "drop j s = s ! j # drop (Suc j) s"
        using j(1) by (simp add: Cons_nth_drop_Suc)
      then have dr: "drop j s = [c2]"
        by (simp add: j(2) len)
      have cl: "py_clamp s (- 1) = j"
        by (simp add: py_clamp_def len)
      have cr: "py_clamp s (int j + 1) = Suc j"
        by (simp add: py_clamp_def len)
      show ?thesis
        by (simp add: py_slice_def py_rfind_def f Some cl cr dr)
    next
      case False
      with j have lt: "Suc j < length s" by simp
      have cl: "py_clamp s (- 1) = length s - 1"
        using lt by (simp add: py_clamp_def)
      have cr: "py_clamp s (int j + 1) = Suc j"
        using lt by (simp add: py_clamp_def)
      show ?thesis
        using lt by (simp add: py_slice_def py_rfind_def f Some cl cr)
    qed
  qed
next
  case True
  define i where "i = length (takeWhile (\<lambda>x. x \<noteq> c1) s)"
  have f: "py_find s [c1] = int i"
    using True by (simp add: py_find_def find_sub_single i_def)
  from assms pair_iff[of c1 c2 s] have "py_rfind s [c2] + 1 \<le> int i"
    by (simp add: f)
  moreover have "0 \<le> py_rfind s [c2] + 1"
    by (simp add: py_rfind_def split: option.splits)
  ultimately have "py_clamp s (py_rfind s [c2] + 1) \<le> py_clamp s (int i)"
    by (simp add: py_clamp_def)
  then show ?thesis by (simp add: py_slice_def f)
qed

section \<open>Properties of the prioritisation\<close>

lemmas json_eval = json_loads_def lit_def scan_token_def punctuation_def json_whitespace_def
  scan_number_def scan_int_part_def scan_fraction_def scan_exponent_def is_digit_def
  json_constants_def digits_value_def

lemma json_loads_empty: "json_loads [] = Inl JSONDecodeError"
  by (simp add: json_eval)

lemma json_loads_closing_brace: "json_loads [ord CHR ''}''] = Inl JSONDecodeError"
  by (simp add: json_eval)

lemma json_loads_empty_array: "json_loads (lit ''[]'') = Inr (PList [])"
  by (simp add: json_eval)

lemma lit_single: "lit [c] = [ord c]"
  by (simp add: lit_def)

text \<open>
  The summary for the prompt can be prepared exactly when the description of each of the
  first fifty incidents can be sliced: it is absent, a string or a list.
\<close>

definition sliceable :: "pyval \<Rightarrow> bool" where
  "sliceable v = (case v of PStr s \<Rightarrow> True | PList xs \<Rightarrow> True | _ \<Rightarrow> False)"

definition descriptions_sliceable :: "pydict list \<Rightarrow> bool" where
  "descriptions_sliceable incidents =
     list_all (\<lambda>inc. sliceable (dict_get inc (lit ''description'') (pstr ''''))) (take 50 incidents)"

lemma summary_entry_ok:
  "sliceable (dict_get inc (lit ''description'') (pstr '''')) \<Longrightarrow> \<exists>e. summary_entry inc = Inr e"
  by (cases "dict_get inc (lit ''description'') (pstr '''')")
     (simp_all add: sliceable_def summary_entry_def)

lemma prepare_incident_summary_ok:
  assumes "descriptions_sliceable incidents"
  shows "\<exists>summary. prepare_incident_summary incidents = Inr summary"
  unfolding prepare_incident_summary_def
proof (rule map_res_total)
  show "list_all (\<lambda>x. \<exists>y. summary_entry x = Inr y) (take 50 incidents)"
    using assms unfolding descriptions_sliceable_def
    by (rule list_all_mono) (rule summary_entry_ok)
qed

text \<open>The three buckets of \<open>_basic_prioritization\<close> hold every incident exactly once.\<close>

lemma severity_lists_disjoint: "v \<in> set high_severity \<Longrightarrow> v \<notin> set medium_severity"
  by (auto simp: high_severity_def medium_severity_def)

lemma three_way_partition:
  assumes "\<And>x. P x \<Longrightarrow> \<not> Q x"
  shows "mset (filter P xs @ filter Q xs @ filter (\<lambda>x. \<not> P x \<and> \<not> Q x) xs) = mset xs"
  using assms by (induction xs) auto

lemma fallback_buckets:
  assumes "descriptions_sliceable incidents"
  shows "analyze_incidents Raises incidents =
           Inr (PDict
             [(lit ''high_priority'',
                 PList (map PDict (filter (\<lambda>inc. severity_of inc \<in> set high_severity) incidents))),
              (lit ''medium_priority'',
                 PList (map PDict (filter (\<lambda>inc. severity_of inc \<in> set medium_severity) incidents))),
              (lit ''low_priority'',
                 PList (map PDict (filter (\<lambda>inc. severity_of inc \<notin> set high_severity
                                              \<and> severity_of inc \<notin> set medium_severity) incidents))),
              (lit ''campaigns'', PList [])])
       \<and> mset (filter (\<lambda>inc. severity_of inc \<in> set high_severity) incidents
               @ filter (\<lambda>inc. severity_of inc \<in> set medium_severity) incidents
               @ filter (\<lambda>inc. severity_of inc \<notin> set high_severity
                              \<and> severity_of inc \<notin> set medium_severity) incidents)
           = mset incidents"
proof -
  from prepare_incident_summary_ok[OF assms] obtain summary where
    "prepare_incident_summary incidents = Inr summary" by blast
  then have "analyze_incidents Raises incidents = Inr (PDict (basic_prioritization incidents))"
    by (simp add: analyze_incidents_def)
  moreover have "mset (filter (\<lambda>inc. severity_of inc \<in> set high_severity) incidents
               @ filter (\<lambda>inc. severity_of inc \<in> set medium_severity) incidents
               @ filter (\<lambda>inc. severity_of inc \<notin> set high_severity
                              \<and> severity_of inc \<notin> set medium_severity) incidents)
           = mset incidents"
    by (rule three_way_partition) (rule severity_lists_disjoint)
  ultimately show ?thesis
    by (simp add: basic_prioritization_def)
qed

text \<open>
  Claim C1, at an input where the code leaves it. An identity alert whose \<open>description\<close> is
  \<open>null\<close> becomes an incident whose description is \<open>None\<close>; on that incident
  \<open>analyze_incidents\<close> raises \<open>TypeError\<close> while it prepares the summary, before the \<open>try\<close>
  block, so no fallback is returned although the model call would fail.
\<close>

theorem null_description_raises:
  "aggregate_incidents [] []
     [(lit ''alerts'',
       PList [PDict [(lit ''id'', pstr ''a-9''), (lit ''severity'', pstr ''high''),
                     (lit ''description'', PNone)]])] []
     = Inr [[(lit ''id'', pstr ''a-9''),
             (lit ''title'', pstr ''Unknown Alert''),
             (lit ''description'', PNone),
             (lit ''severity'', pstr ''high''),
             (lit ''source'', pstr ''Microsoft Defender''),
             (lit ''timestamp'', PNone),
             (lit ''raw_data'',
                PDict [(lit ''id'', pstr ''a-9''), (lit ''severity'', pstr ''high''),
                       (lit ''description'', PNone)])]]
   \<and> analyze_incidents Raises
        [[(lit ''id'', pstr ''a-9''),
          (lit ''title'', pstr ''Unknown Alert''),
          (lit ''description'', PNone),
          (lit ''severity'', pstr ''high''),
          (lit ''source'', pstr ''Microsoft Defender''),
          (lit ''timestamp'', PNone),
          (lit ''raw_data'',
             PDict [(lit ''id'', pstr ''a-9''), (lit ''severity'', pstr ''high''),
                    (lit ''description'', PNone)])]]
     = Inl TypeError"
  by (simp add: aggregate_incidents_def payload_records_def alert_incident_def py_get_def
      dict_get_def analyze_incidents_def prepare_incident_summary_def summary_entry_def)

text \<open>
  Claim C6. A completion without a \<open>{\<close> that is followed, somewhere, by a \<open>}\<close>, and a
  completion whose text from the first \<open>{\<close> to the last \<open>}\<close> does not decode, give exactly
  what a raising model call gives; that is the fallback prioritisation whenever the
  summary can be prepared.
\<close>

theorem malformed_completion_falls_back:
  assumes "\<not> has_pair (ord CHR ''{'') (ord CHR ''}'') text
         \<or> (\<exists>e. json_loads (py_slice text (py_find text (lit ''{''))
                                (py_rfind text (lit ''}'') + 1)) = Inl e)"
  shows "analyze_incidents (Completion text) incidents = analyze_incidents Raises incidents
       \<and> (descriptions_sliceable incidents \<longrightarrow>
            analyze_incidents (Completion text) incidents
              = Inr (PDict (basic_prioritization incidents)))"
proof -
  have fails: "\<exists>e. json_loads (py_slice text (py_find text (lit ''{''))
                                (py_rfind text (lit ''}'') + 1)) = Inl e"
  proof (cases "has_pair (ord CHR ''{'') (ord CHR ''}'') text")
    case True
    with assms show ?thesis by blast
  next
    case False
    have "ord CHR ''{'' \<noteq> ord CHR ''}''" by simp
    from no_pair_slice[OF this False] show ?thesis
      unfolding lit_single
      by (elim disjE) (auto simp only: json_loads_empty json_loads_closing_brace)
  qed
  then obtain e where e: "json_loads (py_slice text (py_find text (lit ''{''))
                                (py_rfind text (lit ''}'') + 1)) = Inl e"
    by blast
  have same: "analyze_incidents (Completion text) incidents = analyze_incidents Raises incidents"
    by (simp add: analyze_incidents_def Let_def e)
  have "descriptions_sliceable incidents \<longrightarrow>
            analyze_incidents Raises incidents = Inr (PDict (basic_prioritization incidents))"
  proof
    assume "descriptions_sliceable incidents"
    from prepare_incident_summary_ok[OF this] show
      "analyze_incidents Raises incidents = Inr (PDict (basic_prioritization incidents))"
      by (auto simp: analyze_incidents_def)
  qed
  with same show ?thesis by simp
qed

lemma scenario_sliceable: "descriptions_sliceable scenario_incidents"
  by (simp add: descriptions_sliceable_def scenario_incidents_def sliceable_def dict_get_def)

lemma no_brace_pair_example:
  "\<not> has_pair (ord CHR ''{'') (ord CHR ''}'') (lit ''I cannot rank these. }{'')"
  by (simp add: has_pair_def lit_def)

lemma undecodable_example:
  "\<exists>e. json_loads (py_slice (lit ''Here: {oops}'') (py_find (lit ''Here: {oops}'') (lit ''{''))
                 (py_rfind (lit ''Here: {oops}'') (lit ''}'') + 1)) = Inl e"
proof -
  have "py_slice (lit ''Here: {oops}'') (py_find (lit ''Here: {oops}'') (lit ''{''))
          (py_rfind (lit ''Here: {oops}'') (lit ''}'') + 1) = lit ''{oops}''"
    by (simp add: lit_def py_find_def py_rfind_def py_slice_def py_clamp_def)
  moreover have "json_loads (lit ''{oops}'') = Inl JSONDecodeError"
    by (simp add: json_eval)
  ultimately show ?thesis by simp
qed

theorem malformed_completion_falls_back_witness:
  "analyze_incidents (Completion (lit ''I cannot rank these. }{'')) scenario_incidents
     = analyze_incidents Raises scenario_incidents
   \<and> analyze_incidents (Completion (lit ''I cannot rank these. }{'')) scenario_incidents
     = Inr (PDict (basic_prioritization scenario_incidents))
   \<and> analyze_incidents (Completion (lit ''Here: {oops}'')) scenario_incidents
     = analyze_incidents Raises scenario_incidents
   \<and> analyze_incidents (Completion (lit ''Here: {oops}'')) scenario_incidents
     = Inr (PDict (basic_prioritization scenario_incidents))"
proof -
  note a = malformed_completion_falls_back[OF disjI1[OF no_brace_pair_example],
      of scenario_incidents]
  note b = malformed_completion_falls_back[OF disjI2[OF undecodable_example],
      of scenario_incidents]
  from a b scenario_sliceable show ?thesis by blast
qed

section \<open>Properties of the hunting hypotheses\<close>

text \<open>
  Claim C5, as the code has it. \<open>generate_hunting_hypotheses\<close> returns the one default
  hypothesis when the call raises, when the completion has no \<open>[\<close> followed, somewhere, by
  a \<open>]\<close>, and when the text from the first \<open>[\<close> to the last \<open>]\<close> does not decode. When that
  text decodes, the decoded value is returned as it is.
\<close>

theorem hypotheses_fallback:
  "generate_hunting_hypotheses Raises findings = default_hypotheses
   \<and> py_len default_hypotheses = Some 1
   \<and> (\<not> has_pair (ord CHR ''['') (ord CHR '']'') text \<longrightarrow>
        generate_hunting_hypotheses (Completion text) findings = default_hypotheses)
   \<and> ((\<exists>e. json_loads (py_slice text (py_find text (lit ''[''))
                           (py_rfind text (lit '']'') + 1)) = Inl e) \<longrightarrow>
        generate_hunting_hypotheses (Completion text) findings = default_hypotheses)
   \<and> (has_pair (ord CHR ''['') (ord CHR '']'') text \<and>
        json_loads (py_slice text (py_find text (lit ''[''))
                      (py_rfind text (lit '']'') + 1)) = Inr hypotheses \<longrightarrow>
        generate_hunting_hypotheses (Completion text) findings = hypotheses)"
proof -
  have ne: "ord CHR ''['' \<noteq> ord CHR '']''" by simp
  note pair = pair_iff[OF ne, of "text", folded lit_single]
  have 1: "generate_hunting_hypotheses Raises findings = default_hypotheses"
    by (simp add: generate_hunting_hypotheses_def)
  have 2: "py_len default_hypotheses = Some 1"
    by (simp add: default_hypotheses_def)
  have 3: "generate_hunting_hypotheses (Completion text) findings = default_hypotheses"
    if "\<not> has_pair (ord CHR ''['') (ord CHR '']'') text"
    using that pair by (auto simp: generate_hunting_hypotheses_def Let_def)
  have 4: "generate_hunting_hypotheses (Completion text) findings = default_hypotheses"
    if "\<exists>e. json_loads (py_slice text (py_find text (lit ''[''))
                           (py_rfind text (lit '']'') + 1)) = Inl e"
    using that by (auto simp: generate_hunting_hypotheses_def Let_def)
  have 5: "generate_hunting_hypotheses (Completion text) findings = hypotheses"
    if "has_pair (ord CHR ''['') (ord CHR '']'') text"
      and "json_loads (py_slice text (py_find text (lit ''[''))
                      (py_rfind text (lit '']'') + 1)) = Inr hypotheses"
    using that pair by (auto simp: generate_hunting_hypotheses_def Let_def)
  from 1 2 3 4 5 show ?thesis by blast
qed

lemma no_bracket_pair_example:
  "\<not> has_pair (ord CHR ''['') (ord CHR '']'') (lit ''No hypotheses today.'')"
  by (simp add: has_pair_def lit_def)

lemma undecodable_array_example:
  "\<exists>e. json_loads (py_slice (lit ''[1, 2,] done'') (py_find (lit ''[1, 2,] done'') (lit ''[''))
                 (py_rfind (lit ''[1, 2,] done'') (lit '']'') + 1)) = Inl e"
proof -
  have "py_slice (lit ''[1, 2,] done'') (py_find (lit ''[1, 2,] done'') (lit ''[''))
          (py_rfind (lit ''[1, 2,] done'') (lit '']'') + 1) = lit ''[1, 2,]''"
    by (simp add: lit_def py_find_def py_rfind_def py_slice_def py_clamp_def)
  moreover have "json_loads (lit ''[1, 2,]'') = Inl JSONDecodeError"
    by (simp add: json_eval)
  ultimately show ?thesis by simp
qed

lemma decodable_array_example:
  "has_pair (ord CHR ''['') (ord CHR '']'') (lit ''x [1, 2] y'') \<and>
   json_loads (py_slice (lit ''x [1, 2] y'') (py_find (lit ''x [1, 2] y'') (lit ''[''))
                 (py_rfind (lit ''x [1, 2] y'') (lit '']'') + 1)) = Inr (PList [PInt 1, PInt 2])"
proof -
  have "py_slice (lit ''x [1, 2] y'') (py_find (lit ''x [1, 2] y'') (lit ''[''))
          (py_rfind (lit ''x [1, 2] y'') (lit '']'') + 1) = lit ''[1, 2]''"
    by (simp add: lit_def py_find_def py_rfind_def py_slice_def py_clamp_def)
  moreover have "json_loads (lit ''[1, 2]'') = Inr (PList [PInt 1, PInt 2])"
    by (simp add: json_eval)
  moreover have "has_pair (ord CHR ''['') (ord CHR '']'') (lit ''x [1, 2] y'')"
    by (simp add: has_pair_def lit_def)
  ultimately show ?thesis by simp
qed

theorem hypotheses_fallback_witness:
  "generate_hunting_hypotheses (Completion (lit ''No hypotheses today.'')) [] = default_hypotheses
   \<and> generate_hunting_hypotheses (Completion (lit ''[1, 2,] done'')) [] = default_hypotheses
   \<and> generate_hunting_hypotheses (Completion (lit ''x [1, 2] y'')) [] = PList [PInt 1, PInt 2]"
proof -
  note a = hypotheses_fallback[of "[]" "lit ''No hypotheses today.''"]
  note b = hypotheses_fallback[of "[]" "lit ''[1, 2,] done''"]
  note c = hypotheses_fallback[of "[]" "lit ''x [1, 2] y''" "PList [PInt 1, PInt 2]"]
  from a b c no_bracket_pair_example undecodable_array_example decodable_array_example
  show ?thesis by blast
qed

text \<open>
  The completion \<open>[]\<close> decodes to the empty list, which is returned: zero hypotheses.
\<close>

theorem empty_array_counterexample:
  "generate_hunting_hypotheses (Completion (lit ''[]'')) [] = PList []
   \<and> py_len (generate_hunting_hypotheses (Completion (lit ''[]'')) []) = Some 0"
proof -
  have "py_slice (lit ''[]'') (py_find (lit ''[]'') (lit ''['')) (py_rfind (lit ''[]'') (lit '']'') + 1)
          = lit ''[]''"
    by (simp add: lit_def py_find_def py_rfind_def py_slice_def py_clamp_def)
  moreover have "py_find (lit ''[]'') (lit ''['') = 0" "py_rfind (lit ''[]'') (lit '']'') = 1"
    by (simp_all add: lit_def py_find_def py_rfind_def)
  ultimately have "generate_hunting_hypotheses (Completion (lit ''[]'')) [] = PList []"
    by (simp add: generate_hunting_hypotheses_def json_loads_empty_array)
  then show ?thesis by simp
qed

section \<open>Properties of the investigation\<close>

text \<open>
  Claim C8. \<open>investigate_incident\<close> is a total function of the incident, the three flags
  and the outcome of the summary call: no step of it can raise. Its result has exactly the
  six keys, \<open>affected_assets\<close> holds the hosts and users whatever the flags are, and a
  failed summary call leaves the placeholder text in \<open>ai_summary\<close>.
\<close>

theorem investigate_incident_complete:
  "map fst (investigate_incident fmt response incident include_timeline include_related_events
              include_threat_intel)
     = [lit ''incident_id'', lit ''timeline'', lit ''related_events'', lit ''threat_intel'',
        lit ''affected_assets'', lit ''ai_summary'']
   \<and> dict_get (investigate_incident fmt response incident include_timeline
                 include_related_events include_threat_intel) (lit ''affected_assets'') PNone
     = PDict [(lit ''hosts'', PList []), (lit ''users'', PList [])]
   \<and> dict_get (investigate_incident fmt response incident include_timeline
                 include_related_events include_threat_intel) (lit ''incident_id'') PNone
     = dict_get incident (lit ''id'') PNone
   \<and> dict_get (investigate_incident fmt Raises incident include_timeline
                 include_related_events include_threat_intel) (lit ''ai_summary'') PNone
     = pstr ''Investigation summary unavailable.''
   \<and> dict_get (investigate_incident fmt (Completion text) incident include_timeline
                 include_related_events include_threat_intel) (lit ''ai_summary'') PNone
     = PStr text"
  by (cases include_timeline; cases include_related_events; cases include_threat_intel)
     (simp_all add: investigate_incident_def Let_def dict_get_def extract_affected_assets_def
       generate_investigation_summary_def)

section \<open>Properties of the hunt parsing (\<open>ThreatHuntingEngine.execute_hunt\<close>)\<close>

text \<open>
  \<open>after_first pat s\<close> is the text that follows the first occurrence of \<open>pat\<close> in \<open>s\<close>
  (empty when there is none).
\<close>

fun after_first :: "'a list \<Rightarrow> 'a list \<Rightarrow> 'a list" where
  "after_first pat [] = []"
| "after_first pat (c # cs) =
     (if prefix pat (c # cs) then drop (length pat) (c # cs) else after_first pat cs)"

lemma find_sub_None_iff: "find_sub pat s = None \<longleftrightarrow> \<not> sublist pat s"
  by (induction s) (auto simp: sublist_Cons_right)

lemma find_sub_bound: "find_sub pat s = Some i \<Longrightarrow> i + length pat \<le> length s"
proof (induction s arbitrary: i)
  case Nil
  then show ?case by (simp split: if_splits)
next
  case (Cons c cs)
  show ?case
  proof (cases "prefix pat (c # cs)")
    case True
    with Cons.prems have "i = 0" by simp
    with prefix_length_le[OF True] show ?thesis by simp
  next
    case False
    with Cons.prems obtain k where "find_sub pat cs = Some k" "i = Suc k" by auto
    with Cons.IH show ?thesis by simp
  qed
qed

lemma find_sub_after_first:
  "pat \<noteq> [] \<Longrightarrow> find_sub pat s = Some i \<Longrightarrow> after_first pat s = drop (i + length pat) s"
proof (induction s arbitrary: i)
  case Nil
  then show ?case by simp
next
  case (Cons c cs)
  show ?case
  proof (cases "prefix pat (c # cs)")
    case True
    with Cons.prems have "i = 0" by simp
    with True show ?thesis by simp
  next
    case False
    with Cons.prems obtain k where k: "find_sub pat cs = Some k" "i = Suc k" by auto
    with Cons.IH[OF Cons.prems(1) k(1)] False show ?thesis by simp
  qed
qed

lemma find_sub_first:
  "pat \<noteq> [] \<Longrightarrow> \<not> sublist pat (pre @ butlast pat)
   \<Longrightarrow> find_sub pat (pre @ pat @ suf) = Some (length pre)"
proof (induction pre)
  case Nil
  then obtain c cs where "pat @ suf = c # cs" by (cases pat) auto
  then have "find_sub pat (pat @ suf) = Some 0"
    by (metis find_sub.simps(2) prefixI)
  then show ?case by simp
next
  case (Cons a pre)
  have np: "\<not> prefix pat (a # pre @ pat @ suf)"
  proof
    assume p: "prefix pat (a # pre @ pat @ suf)"
    have "prefix ((a # pre) @ butlast pat) (a # pre @ pat @ suf)"
      by (metis append_Cons append_butlast_last_id Cons.prems(1) append.assoc prefixI same_prefix_prefix)
    moreover have "length pat \<le> length ((a # pre) @ butlast pat)"
      using Cons.prems(1) by (cases pat) auto
    ultimately have "prefix pat ((a # pre) @ butlast pat)"
      using p by (metis prefix_length_prefix)
    with Cons.prems(2) show False by auto
  qed
  have "\<not> sublist pat (pre @ butlast pat)"
    using Cons.prems(2) by (simp add: sublist_Cons_right)
  with Cons.IH Cons.prems(1) have "find_sub pat (pre @ pat @ suf) = Some (length pre)"
    by simp
  with np show ?case by simp
qed


lemma butlast_drop_take: "butlast (drop n s) = take (length s - 1 - n) (drop n s)"
  by (simp add: butlast_conv_take)

lemma lit_length [simp]: "length (lit s) = length s"
  by (simp add: lit_def)

lemma lit_Nil_iff [simp]: "lit s = [] \<longleftrightarrow> s = []"
  by (simp add: lit_def)

text \<open>
  Claim C10. For a completion that contains \<open>SUMMARY:\<close> and does not contain \<open>ACTIONS:\<close>,
  the search for \<open>ACTIONS:\<close> gives \<open>-1\<close>, which as the end of the slice means the last
  character: \<open>ai_summary\<close> is the text after the first \<open>SUMMARY:\<close> without its final
  character, stripped, and \<open>recommended_actions\<close> stays empty.
\<close>

theorem summary_without_actions:
  assumes "sublist (lit ''SUMMARY:'') text" and "\<not> sublist (lit ''ACTIONS:'') text"
  shows "execute_hunt (Completion text) hypothesis data_sources =
           [(lit ''status'', pstr ''completed''),
            (lit ''evidence'', PList []),
            (lit ''ai_summary'',
               PStr (py_strip (butlast (after_first (lit ''SUMMARY:'') text)))),
            (lit ''recommended_actions'', PList [])]"
proof -
  from assms(1) obtain i where i: "find_sub (lit ''SUMMARY:'') text = Some i"
    using find_sub_None_iff[of "lit ''SUMMARY:''" "text"] by auto
  from assms(2) have a: "find_sub (lit ''ACTIONS:'') text = None"
    by (simp add: find_sub_None_iff)
  from find_sub_bound[OF i] have b: "i + 8 \<le> length text" by simp
  have l8: "length (lit ''SUMMARY:'') = 8" by simp
  have ne: "lit ''SUMMARY:'' \<noteq> []" by simp
  have af: "after_first (lit ''SUMMARY:'') text = drop (i + 8) text"
    by (simp only: find_sub_after_first[OF ne i] l8)
  have c1: "py_clamp text (int i + 8) = i + 8"
    using b by (simp add: py_clamp_def)
  have c2: "py_clamp text (- 1) = length text - 1"
    using b by (simp add: py_clamp_def)
  have sl: "py_slice text (int i + 8) (- 1) = butlast (drop (i + 8) text)"
    by (simp add: py_slice_def c1 c2 butlast_drop_take)
  show ?thesis
    by (simp add: execute_hunt_def Let_def py_contains_def py_find_def i a sl af)
qed

text \<open>
  Claim C7. For a completion in which the first \<open>SUMMARY:\<close> is followed by \<open>mid\<close>, then by
  the first \<open>ACTIONS:\<close> of the text, then by \<open>rest\<close>, \<open>ai_summary\<close> is \<open>mid\<close> stripped and
  \<open>recommended_actions\<close> holds one action per line of \<open>rest\<close> that starts, after
  stripping, with a dash: the line without its leading dashes and surrounding whitespace.
  For the completion \<open>"SUMMARY: X\\n\\nACTIONS:\\n- A1\\n- A2"\<close> that is the summary \<open>X\<close> and
  the actions \<open>A1\<close> and \<open>A2\<close>.
\<close>

theorem summary_between_markers:
  assumes "text = pre @ lit ''SUMMARY:'' @ mid @ lit ''ACTIONS:'' @ rest"
    and "\<not> sublist (lit ''SUMMARY:'') (pre @ butlast (lit ''SUMMARY:''))"
    and "\<not> sublist (lit ''ACTIONS:'') (pre @ lit ''SUMMARY:'' @ mid @ butlast (lit ''ACTIONS:''))"
  shows "execute_hunt (Completion text) hypothesis data_sources =
           [(lit ''status'', pstr ''completed''),
            (lit ''evidence'', PList []),
            (lit ''ai_summary'', PStr (py_strip mid)),
            (lit ''recommended_actions'', PList (parse_actions rest))]"
proof -
  have i: "find_sub (lit ''SUMMARY:'') text = Some (length pre)"
    unfolding assms(1) using assms(2) by (intro find_sub_first) simp_all
  have "find_sub (lit ''ACTIONS:'') ((pre @ lit ''SUMMARY:'' @ mid) @ lit ''ACTIONS:'' @ rest)
          = Some (length (pre @ lit ''SUMMARY:'' @ mid))"
    using assms(3) by (intro find_sub_first) simp_all
  then have j: "find_sub (lit ''ACTIONS:'') text = Some (length pre + 8 + length mid)"
    by (simp add: assms(1))
  have c1: "py_clamp text (int (length pre) + 8) = length pre + 8"
    by (simp add: py_clamp_def assms(1))
  have c2: "py_clamp text (int (length pre + 8 + length mid)) = length pre + 8 + length mid"
    by (simp add: py_clamp_def assms(1))
  have c3: "py_clamp text (int (length pre + 8 + length mid) + 8) = length pre + 8 + length mid + 8"
    by (simp add: py_clamp_def assms(1))
  have sl: "py_slice text (int (length pre) + 8) (int (length pre + 8 + length mid)) = mid"
    unfolding py_slice_def c1 c2 by (simp add: assms(1))
  have sf: "py_slice_from text (int (length pre + 8 + length mid) + 8) = rest"
    unfolding py_slice_from_def c3 by (simp add: assms(1))
  show ?thesis
    using sl sf
    by (simp add: execute_hunt_def Let_def py_contains_def py_find_def i j)
qed


text \<open>The completion \<open>"SUMMARY: X\\n\\nACTIONS:\\n- A1\\n- A2"\<close>.\<close>

definition example_completion :: pystr where
  "example_completion =
     lit (''SUMMARY: X'' @ [CHR 0x0A, CHR 0x0A] @ ''ACTIONS:'' @ [CHR 0x0A] @ ''- A1''
          @ [CHR 0x0A] @ ''- A2'')"

lemma example_split:
  "example_completion =
     [] @ lit ''SUMMARY:'' @ lit ('' X'' @ [CHR 0x0A, CHR 0x0A]) @ lit ''ACTIONS:''
        @ lit ([CHR 0x0A] @ ''- A1'' @ [CHR 0x0A] @ ''- A2'')"
  by (simp add: example_completion_def lit_def)

lemma example_first_summary:
  "\<not> sublist (lit ''SUMMARY:'') ([] @ butlast (lit ''SUMMARY:''))"
  by (simp add: lit_def sublist_Cons_right)

lemma example_first_actions:
  "\<not> sublist (lit ''ACTIONS:'')
       ([] @ lit ''SUMMARY:'' @ lit ('' X'' @ [CHR 0x0A, CHR 0x0A]) @ butlast (lit ''ACTIONS:''))"
  by (simp add: lit_def sublist_Cons_right)

lemma example_strip: "py_strip (lit ('' X'' @ [CHR 0x0A, CHR 0x0A])) = lit ''X''"
  by (simp add: py_strip_def py_lstrip_def py_rstrip_def py_isspace_def lit_def)

lemma example_actions:
  "parse_actions (lit ([CHR 0x0A] @ ''- A1'' @ [CHR 0x0A] @ ''- A2'')) = [pstr ''A1'', pstr ''A2'']"
  by (simp add: parse_actions_def py_strip_def py_lstrip_def py_rstrip_def py_isspace_def
      py_lstrip_chars_def py_startswith_def lit_def)

theorem summary_between_markers_witness:
  "execute_hunt (Completion example_completion) [] [] =
     [(lit ''status'', pstr ''completed''),
      (lit ''evidence'', PList []),
      (lit ''ai_summary'', pstr ''X''),
      (lit ''recommended_actions'', PList [pstr ''A1'', pstr ''A2''])]"
  using summary_between_markers[OF example_split example_first_summary example_first_actions,
      of "[]" "[]"]
  by (simp only: example_strip example_actions)

lemma no_actions_example:
  "sublist (lit ''SUMMARY:'') (lit ''Note. SUMMARY: all quiet.'')"
  "\<not> sublist (lit ''ACTIONS:'') (lit ''Note. SUMMARY: all quiet.'')"
  by (simp_all add: lit_def sublist_Cons_right)

lemma no_actions_example_text:
  "py_strip (butlast (after_first (lit ''SUMMARY:'') (lit ''Note. SUMMARY: all quiet.'')))
     = lit ''all quiet''"
  by (simp add: py_strip_def py_lstrip_def py_rstrip_def py_isspace_def lit_def)

theorem summary_without_actions_witness:
  "execute_hunt (Completion (lit ''Note. SUMMARY: all quiet.'')) [] [] =
     [(lit ''status'', pstr ''completed''),
      (lit ''evidence'', PList []),
      (lit ''ai_summary'', pstr ''all quiet''),
      (lit ''recommended_actions'', PList [])]"
  using summary_without_actions[OF no_actions_example, of "[]" "[]"]
  by (simp only: no_actions_example_text)

end
